theory Spec2Isabelle
  imports Complex_Main
begin

section \<open>Resonator spectroscopy analysis: outcome classification\<close>

text \<open>
  A shallow embedding of \<^verbatim>\<open>calibration_utils/resonator_spectroscopy/analysis.py\<close>.

  Python values that the metrics dictionary and the fit dataset hold are values of
  \<open>py_value\<close>. In the classifier and the extractor a finite Python float is modelled by
  the real number it denotes: the order comparisons of the source are exact on finite
  floats, and the one quotient (\<open>fwhm / sweep_span\<close>) and the one difference
  (\<open>max - min\<close>) are taken exactly. Python compares \<open>bool\<close>, \<open>int\<close> and \<open>float\<close> by
  numeric value, which \<open>num\<close> gives; \<open>None\<close> has none, and an order comparison with it
  raises \<open>TypeError\<close>. Python's integers are unbounded, and a division that meets one
  too large for a float raises \<open>OverflowError\<close>.

  The logger multiplies floats by \<open>1e-9\<close> and \<open>1e-3\<close> and prints decimal digits of the
  products, which depends on their binary representation; there a float is a binary64
  value, with its rounding, its two zeros, its infinities and not-a-number.

  A raised exception is the \<open>Inl\<close> of a result: its class name and the names its message
  carries.
\<close>

subsection \<open>Python values and exceptions\<close>

datatype py_value = PyNone | PyBool bool | PyInt int | PyFloat real

datatype py_error = PyError string "string list"

abbreviation KeyError :: "string \<Rightarrow> py_error" where
  "KeyError k \<equiv> PyError ''KeyError'' [k]"

abbreviation AttributeError :: "string \<Rightarrow> py_error" where
  "AttributeError a \<equiv> PyError ''AttributeError'' [a]"

abbreviation TypeError :: py_error where
  "TypeError \<equiv> PyError ''TypeError'' []"

abbreviation ValueError :: py_error where
  "ValueError \<equiv> PyError ''ValueError'' []"

abbreviation ZeroDivisionError :: py_error where
  "ZeroDivisionError \<equiv> PyError ''ZeroDivisionError'' []"

fun exn_class :: "py_error \<Rightarrow> string" where
  "exn_class (PyError c args) = c"

fun exn_args :: "py_error \<Rightarrow> string list" where
  "exn_args (PyError c args) = args"

text \<open>Sequencing of fallible steps: the first exception raised is the result.\<close>

definition bnd :: "py_error + 'a \<Rightarrow> ('a \<Rightarrow> py_error + 'b) \<Rightarrow> py_error + 'b" where
  "bnd r f = (case r of Inl e \<Rightarrow> Inl e | Inr v \<Rightarrow> f v)"

fun num :: "py_value \<Rightarrow> real option" where
  "num PyNone = None"
| "num (PyBool b) = Some (if b then 1 else 0)"
| "num (PyInt i) = Some (of_int i)"
| "num (PyFloat r) = Some r"

text \<open>\<open>v < t\<close> and \<open>v > t\<close> against a float threshold.\<close>

definition py_lt :: "py_value \<Rightarrow> real \<Rightarrow> py_error + bool" where
  "py_lt v t = (case num v of None \<Rightarrow> Inl TypeError | Some x \<Rightarrow> Inr (x < t))"

definition py_gt :: "py_value \<Rightarrow> real \<Rightarrow> py_error + bool" where
  "py_gt v t = (case num v of None \<Rightarrow> Inl TypeError | Some x \<Rightarrow> Inr (x > t))"

text \<open>\<open>v == t\<close> never raises: \<open>None == 0\<close> is \<open>False\<close>.\<close>

definition py_eq :: "py_value \<Rightarrow> real \<Rightarrow> bool" where
  "py_eq v t = (case num v of None \<Rightarrow> False | Some x \<Rightarrow> x = t)"

text \<open>Truth value of an object, as \<open>if v:\<close> and \<open>bool(v)\<close> take it.\<close>

fun truthy :: "py_value \<Rightarrow> bool" where
  "truthy PyNone = False"
| "truthy (PyBool b) = b"
| "truthy (PyInt i) = (i \<noteq> 0)"
| "truthy (PyFloat r) = (r \<noteq> 0)"

text \<open>
  True division \<open>a / b\<close>. \<open>None\<close> as an operand raises \<open>TypeError\<close>. Two integers
  (\<open>bool\<close> is a subclass of \<open>int\<close>) are divided exactly and the quotient is rounded to
  a float: a zero divisor raises \<open>ZeroDivisionError\<close>, and a quotient that rounds beyond
  the largest finite float raises \<open>OverflowError\<close>. Otherwise an integer operand is first
  converted to a float, which raises \<open>OverflowError\<close> when it rounds beyond the largest
  finite float, and then a zero divisor raises \<open>ZeroDivisionError\<close>. A number rounds
  beyond the largest finite float \<open>2^1024 - 2^971\<close> when its magnitude is at least
  \<open>2^1024 - 2^970\<close>.
\<close>

abbreviation OverflowError :: py_error where
  "OverflowError \<equiv> PyError ''OverflowError'' []"

definition float_limit :: int where
  "float_limit = 2 ^ 1024 - 2 ^ 970"

fun int_of :: "py_value \<Rightarrow> int option" where
  "int_of PyNone = None"
| "int_of (PyBool b) = Some (if b then 1 else 0)"
| "int_of (PyInt i) = Some i"
| "int_of (PyFloat r) = None"

definition to_float :: "py_value \<Rightarrow> py_error + real" where
  "to_float v =
     (case v of PyNone \<Rightarrow> Inl TypeError
      | PyBool b \<Rightarrow> Inr (if b then 1 else 0)
      | PyInt i \<Rightarrow> if \<bar>i\<bar> < float_limit then Inr (of_int i) else Inl OverflowError
      | PyFloat r \<Rightarrow> Inr r)"

definition py_truediv :: "py_value \<Rightarrow> py_value \<Rightarrow> py_error + real" where
  "py_truediv a b =
     (if a = PyNone \<or> b = PyNone then Inl TypeError
      else
        (case (int_of a, int_of b) of
           (Some i, Some j) \<Rightarrow>
             if j = 0 then Inl ZeroDivisionError
             else if of_int float_limit \<le> \<bar>of_int i / of_int j :: real\<bar>
             then Inl OverflowError
             else Inr (of_int i / of_int j)
         | _ \<Rightarrow>
             bnd (to_float a) (\<lambda>x.
             bnd (to_float b) (\<lambda>y.
             if y = 0 then Inl ZeroDivisionError else Inr (x / y)))))"

text \<open>A value that converts to a float without overflow: every value but an integer of
  magnitude \<open>2^1024 - 2^970\<close> or more.\<close>

definition fits_float :: "py_value \<Rightarrow> bool" where
  "fits_float v = (case v of PyInt i \<Rightarrow> \<bar>i\<bar> < float_limit | _ \<Rightarrow> True)"

text \<open>\<open>a and b\<close> on fallible conditions: \<open>b\<close> is evaluated only when \<open>a\<close> is true.\<close>

definition py_and :: "py_error + bool \<Rightarrow> py_error + bool \<Rightarrow> py_error + bool" where
  "py_and a b = bnd a (\<lambda>x. if x then b else Inr False)"

text \<open>Subscription \<open>d[k]\<close> of a dictionary.\<close>

type_synonym py_dict = "string \<rightharpoonup> py_value"

definition getitem :: "py_dict \<Rightarrow> string \<Rightarrow> py_error + py_value" where
  "getitem d k = (case d k of None \<Rightarrow> Inl (KeyError k) | Some v \<Rightarrow> Inr v)"

subsection \<open>Analysis constants\<close>

definition SNR_MIN :: real where "SNR_MIN = 2.5"
definition SNR_DISTORTED :: real where "SNR_DISTORTED = 5.0"
definition ASYMMETRY_MIN :: real where "ASYMMETRY_MIN = 0.4"
definition ASYMMETRY_MAX :: real where "ASYMMETRY_MAX = 2.5"
definition SKEWNESS_MAX :: real where "SKEWNESS_MAX = 1.5"
definition DISTORTED_FRACTION_LOW_SNR :: real where "DISTORTED_FRACTION_LOW_SNR = 0.2"
definition DISTORTED_FRACTION_HIGH_SNR :: real where "DISTORTED_FRACTION_HIGH_SNR = 0.3"
definition FWHM_ABSOLUTE_THRESHOLD_HZ :: real where "FWHM_ABSOLUTE_THRESHOLD_HZ = 1000000"
definition NRMSE_THRESHOLD :: real where "NRMSE_THRESHOLD = 0.14"
definition R_SQUARED_THRESHOLD :: real where "R_SQUARED_THRESHOLD = 0.90"

subsection \<open>The outcome strings\<close>

definition msg_successful :: string where
  "msg_successful = ''successful''"

definition msg_low_snr :: string where
  "msg_low_snr = ''The SNR isn't large enough, consider increasing the number of shots''"

definition msg_artifact :: string where
  "msg_artifact =
     ''OPX bandwidth artifact detected, check your experiment bandwidth settings''"

definition msg_several_peaks :: string where
  "msg_several_peaks = ''Several peaks were detected''"

definition msg_no_peaks_low_snr :: string where
  "msg_no_peaks_low_snr =
     ''The SNR isn't large enough, consider increasing the number of shots '' @
     ''and ensure you are looking at the correct frequency range''"

definition msg_no_peaks :: string where
  "msg_no_peaks = ''No peaks were detected, consider changing the frequency range''"

definition msg_shape_distorted :: string where
  "msg_shape_distorted = ''The peak shape is distorted''"

definition msg_low_snr_distorted :: string where
  "msg_low_snr_distorted = ''The SNR isn't large enough and the peak shape is distorted''"

definition msg_distorted_peak :: string where
  "msg_distorted_peak = ''Distorted peak detected''"

subsection \<open>Shape and width checks\<close>

text \<open>
  \<open>_is_peak_shape_distorted\<close>. Both comparisons are guarded by \<open>is not None\<close>, and every
  value other than \<open>None\<close> is a number, so the function raises nothing.
\<close>

definition is_peak_shape_distorted ::
  "py_value \<Rightarrow> py_value \<Rightarrow> real \<Rightarrow> real \<Rightarrow> real \<Rightarrow> bool" where
  "is_peak_shape_distorted asymmetry skewness asymmetry_min asymmetry_max skewness_max =
     (let asymmetry_bad =
            (case num asymmetry of None \<Rightarrow> False
             | Some a \<Rightarrow> a < asymmetry_min \<or> a > asymmetry_max);
          skewness_bad =
            (case num skewness of None \<Rightarrow> False | Some s \<Rightarrow> \<bar>s\<bar> > skewness_max)
      in asymmetry_bad \<or> skewness_bad)"

text \<open>\<open>_is_peak_too_wide\<close>.\<close>

definition is_peak_too_wide ::
  "py_value \<Rightarrow> py_value \<Rightarrow> py_value \<Rightarrow> real \<Rightarrow> real \<Rightarrow> real \<Rightarrow> real \<Rightarrow> py_error + bool" where
  "is_peak_too_wide fwhm sweep_span snr snr_distorted distorted_fraction_low_snr
       distorted_fraction_high_snr fwhm_absolute_threshold =
     bnd (py_lt snr snr_distorted) (\<lambda>low.
       let distorted_fraction =
             (if low then distorted_fraction_low_snr else distorted_fraction_high_snr)
       in
       bnd (py_and (py_gt sweep_span 0)
              (bnd (py_truediv fwhm sweep_span) (\<lambda>q. Inr (q > distorted_fraction))))
         (\<lambda>relative_width_bad.
       bnd (py_gt fwhm fwhm_absolute_threshold) (\<lambda>absolute_width_bad.
       Inr (relative_width_bad \<or> absolute_width_bad))))"

subsection \<open>The classifier\<close>

text \<open>
  \<open>_determine_resonator_outcome\<close>: the nine subscriptions come first, in the source's
  order, then the cascade. Eight thresholds are parameters; rule 1 compares with the
  module constants.
\<close>

definition determine_resonator_outcome ::
  "py_dict \<Rightarrow> real \<Rightarrow> real \<Rightarrow> real \<Rightarrow> real \<Rightarrow> real \<Rightarrow> real \<Rightarrow> real \<Rightarrow> real
     \<Rightarrow> py_error + string" where
  "determine_resonator_outcome metrics snr_min snr_distorted asymmetry_min asymmetry_max
       skewness_max distorted_fraction_low_snr distorted_fraction_high_snr
       fwhm_absolute_threshold =
     bnd (getitem metrics ''num_peaks'') (\<lambda>num_peaks.
     bnd (getitem metrics ''snr'') (\<lambda>snr.
     bnd (getitem metrics ''fwhm'') (\<lambda>fwhm.
     bnd (getitem metrics ''sweep_span'') (\<lambda>sweep_span.
     bnd (getitem metrics ''asymmetry'') (\<lambda>asymmetry.
     bnd (getitem metrics ''skewness'') (\<lambda>skewness.
     bnd (getitem metrics ''opx_bandwidth_artifact'') (\<lambda>opx_bandwidth_artifact.
     bnd (getitem metrics ''nrmse'') (\<lambda>nrmse.
     bnd (getitem metrics ''r_squared'') (\<lambda>r_squared.
     bnd (py_and (py_gt r_squared R_SQUARED_THRESHOLD) (py_lt nrmse NRMSE_THRESHOLD))
       (\<lambda>good_fit.
     if good_fit then Inr msg_successful
     else
     bnd (py_lt snr snr_min) (\<lambda>low_snr.
     if low_snr then Inr msg_low_snr
     else if truthy opx_bandwidth_artifact then Inr msg_artifact
     else
     bnd (py_gt num_peaks 1) (\<lambda>several.
     if several then Inr msg_several_peaks
     else if py_eq num_peaks 0 then
       bnd (py_lt snr snr_min) (\<lambda>low_snr_again.
       if low_snr_again then Inr msg_no_peaks_low_snr else Inr msg_no_peaks)
     else if is_peak_shape_distorted asymmetry skewness asymmetry_min asymmetry_max
               skewness_max
     then Inr msg_shape_distorted
     else
     bnd (is_peak_too_wide fwhm sweep_span snr snr_distorted distorted_fraction_low_snr
            distorted_fraction_high_snr fwhm_absolute_threshold) (\<lambda>too_wide.
     if too_wide then
       bnd (py_lt snr snr_distorted) (\<lambda>low.
       if low then Inr msg_low_snr_distorted else Inr msg_distorted_peak)
     else Inr msg_successful)))))))))))))"

text \<open>The call with every keyword argument left at its default.\<close>

definition determine_resonator_outcome_default :: "py_dict \<Rightarrow> py_error + string" where
  "determine_resonator_outcome_default metrics =
     determine_resonator_outcome metrics SNR_MIN SNR_DISTORTED ASYMMETRY_MIN ASYMMETRY_MAX
       SKEWNESS_MAX DISTORTED_FRACTION_LOW_SNR DISTORTED_FRACTION_HIGH_SNR
       FWHM_ABSOLUTE_THRESHOLD_HZ"

text \<open>The keys the classifier subscripts, in the order it does.\<close>

definition metric_keys :: "string list" where
  "metric_keys =
     [''num_peaks'', ''snr'', ''fwhm'', ''sweep_span'', ''asymmetry'', ''skewness'',
      ''opx_bandwidth_artifact'', ''nrmse'', ''r_squared'']"

subsection \<open>The metric extractor\<close>

text \<open>
  The fit dataset, as far as \<open>_extract_qubit_fit_metrics\<close> reads it: the names of its
  dimensions, the values of each coordinate array (flattened: \<open>max\<close> and \<open>min\<close> range
  over the whole array), and for each label of the qubit index the scalar that every
  variable holds there, which is what \<open>fit.sel(qubit=...)\<close> returns.
\<close>

record dataset =
  dims :: "string list"
  coords :: "string \<rightharpoonup> real list"
  qubit_index :: "string \<rightharpoonup> py_dict"

record fitter =
  quality_metrics :: py_dict

text \<open>\<open>fit.sel(qubit=qubit_name)\<close>: a label that the index lacks raises \<open>KeyError\<close>.\<close>

definition sel_qubit :: "dataset \<Rightarrow> string \<Rightarrow> py_error + py_dict" where
  "sel_qubit fit qubit_name =
     (case qubit_index fit qubit_name of None \<Rightarrow> Inl (KeyError qubit_name)
      | Some qubit_data \<Rightarrow> Inr qubit_data)"

text \<open>\<open>qubit_data.name\<close>: a variable that the dataset lacks raises \<open>AttributeError\<close>.\<close>

definition getattr_var :: "py_dict \<Rightarrow> string \<Rightarrow> py_error + py_value" where
  "getattr_var qubit_data name =
     (case qubit_data name of None \<Rightarrow> Inl (AttributeError name) | Some v \<Rightarrow> Inr v)"

text \<open>\<open>fitters[qubit_name]\<close>.\<close>

definition getitem_fitter :: "(string \<rightharpoonup> fitter) \<Rightarrow> string \<Rightarrow> py_error + fitter" where
  "getitem_fitter fitters qubit_name =
     (case fitters qubit_name of None \<Rightarrow> Inl (KeyError qubit_name) | Some f \<Rightarrow> Inr f)"

text \<open>
  \<open>int(v)\<close> truncates a float toward zero; \<open>float(v)\<close>; both raise on \<open>None\<close>. The
  argument is an element of a variable of the fit dataset, a NumPy array of numbers of
  fixed width, so an integer here is within the range of the floats.
\<close>

definition py_int :: "py_value \<Rightarrow> py_error + int" where
  "py_int v =
     (case v of PyNone \<Rightarrow> Inl TypeError
      | PyBool b \<Rightarrow> Inr (if b then 1 else 0)
      | PyInt i \<Rightarrow> Inr i
      | PyFloat r \<Rightarrow> Inr (if 0 \<le> r then \<lfloor>r\<rfloor> else \<lceil>r\<rceil>))"

definition py_float :: "py_value \<Rightarrow> py_error + real" where
  "py_float v = (case num v of None \<Rightarrow> Inl TypeError | Some x \<Rightarrow> Inr x)"

text \<open>
  \<open>fit.coords[name].max() - fit.coords[name].min()\<close>: a missing coordinate raises
  \<open>KeyError\<close>, and the reduction of an empty array raises \<open>ValueError\<close>.
\<close>

fun array_max :: "real list \<Rightarrow> py_error + real" where
  "array_max [] = Inl ValueError"
| "array_max (x # xs) = Inr (fold max xs x)"

fun array_min :: "real list \<Rightarrow> py_error + real" where
  "array_min [] = Inl ValueError"
| "array_min (x # xs) = Inr (fold min xs x)"

definition getitem_coord :: "dataset \<Rightarrow> string \<Rightarrow> py_error + real list" where
  "getitem_coord fit name =
     (case coords fit name of None \<Rightarrow> Inl (KeyError name) | Some xs \<Rightarrow> Inr xs)"

definition coord_span :: "dataset \<Rightarrow> string \<Rightarrow> py_error + real" where
  "coord_span fit name =
     bnd (bnd (getitem_coord fit name) array_max) (\<lambda>hi.
     bnd (bnd (getitem_coord fit name) array_min) (\<lambda>lo.
     Inr (hi - lo)))"

text \<open>
  The block of \<open>_extract_qubit_fit_metrics\<close> that computes \<open>sweep_span\<close>: it reads the
  dimensions and the coordinates of the whole dataset, and nothing of the qubit's slice.
\<close>

definition sweep_span_of :: "dataset \<Rightarrow> py_error + real" where
  "sweep_span_of fit =
     (if ''detuning'' \<in> set (dims fit) then coord_span fit ''detuning''
      else if ''full_freq'' \<in> set (dims fit) then coord_span fit ''full_freq''
      else Inr 0.0)"

text \<open>\<open>_extract_qubit_fit_metrics\<close>; the entries of the returned dictionary are evaluated
  in the order the source writes them.\<close>

definition extract_qubit_fit_metrics ::
  "dataset \<Rightarrow> (string \<rightharpoonup> fitter) \<Rightarrow> string \<Rightarrow> py_error + py_dict" where
  "extract_qubit_fit_metrics fit fitters qubit_name =
     bnd (sel_qubit fit qubit_name) (\<lambda>qubit_data.
     bnd (getitem_fitter fitters qubit_name) (\<lambda>fitter.
     bnd (sweep_span_of fit) (\<lambda>sweep_span.
     bnd (bnd (getattr_var qubit_data ''num_peaks'') py_int) (\<lambda>num_peaks.
     bnd (bnd (getattr_var qubit_data ''snr'') py_float) (\<lambda>snr.
     bnd (bnd (getattr_var qubit_data ''fwhm'') py_float) (\<lambda>fwhm.
     bnd (bnd (getattr_var qubit_data ''asymmetry'') py_float) (\<lambda>asymmetry.
     bnd (bnd (getattr_var qubit_data ''skewness'') py_float) (\<lambda>skewness.
     bnd (getattr_var qubit_data ''opx_bandwidth_artifact'') (\<lambda>raw_artifact.
     bnd (getitem (quality_metrics fitter) ''nrmse'') (\<lambda>nrmse.
     bnd (getitem (quality_metrics fitter) ''r_squared'') (\<lambda>r_squared.
     Inr [''num_peaks'' \<mapsto> PyInt num_peaks,
          ''snr'' \<mapsto> PyFloat snr,
          ''fwhm'' \<mapsto> PyFloat fwhm,
          ''sweep_span'' \<mapsto> PyFloat sweep_span,
          ''asymmetry'' \<mapsto> PyFloat asymmetry,
          ''skewness'' \<mapsto> PyFloat skewness,
          ''opx_bandwidth_artifact'' \<mapsto> PyBool (\<not> truthy raw_artifact),
          ''nrmse'' \<mapsto> nrmse,
          ''r_squared'' \<mapsto> r_squared])))))))))))"

text \<open>The classes of the exceptions that the extractor's steps raise.\<close>

definition builtin_error :: "py_error \<Rightarrow> bool" where
  "builtin_error e \<longleftrightarrow>
     exn_class e \<in> {''KeyError'', ''AttributeError'', ''TypeError'', ''ValueError''}"

text \<open>The fields whose absence the extractor meets as a failed lookup.\<close>

definition dataset_fields :: "string list" where
  "dataset_fields =
     [''num_peaks'', ''snr'', ''fwhm'', ''asymmetry'', ''skewness'',
      ''opx_bandwidth_artifact'']"

definition fitter_fields :: "string list" where
  "fitter_fields = [''nrmse'', ''r_squared'']"

subsection \<open>Binary floating point\<close>

text \<open>
  The logger multiplies floats and prints their digits, which depends on the binary
  representation, so for the logger a Python float is an IEEE 754 binary64 value:
  \<open>Finite s m e\<close> is \<open>(-1)^s * m * 2^e\<close> with a mantissa below \<open>2^53\<close> and an exponent
  from \<open>-1074\<close> to \<open>971\<close> (so there are two zeros, and a value has several such
  triples), \<open>Infinity s\<close> is the infinity of that sign, and \<open>NaN\<close> is not-a-number.
\<close>

datatype double = Finite bool nat int | Infinity bool | NaN

text \<open>The number of binary digits of a natural number.\<close>

fun bitlen :: "nat \<Rightarrow> nat" where
  "bitlen n = (if n = 0 then 0 else Suc (bitlen (n div 2)))"

text \<open>The integer nearest to \<open>n / d\<close>, a tie going to the even neighbour.\<close>

definition round_half_even_div :: "nat \<Rightarrow> nat \<Rightarrow> nat" where
  "round_half_even_div n d =
     (let q = n div d; r = n mod d
      in if 2 * r < d then q else if d < 2 * r then q + 1 else if even q then q else q + 1)"

text \<open>The exponent of the leading binary digit of \<open>a / b\<close>, for positive \<open>a\<close> and \<open>b\<close>.\<close>

definition floor_log2 :: "nat \<Rightarrow> nat \<Rightarrow> int" where
  "floor_log2 a b =
     (let d = int (bitlen a) - int (bitlen b)
      in if (if 0 \<le> d then b * 2 ^ nat d \<le> a else b \<le> a * 2 ^ nat (- d)) then d
         else d - 1)"

text \<open>
  Rounding to nearest, ties to even, of the exact value \<open>a / b\<close> with sign \<open>s\<close>: the
  result keeps 53 binary digits, or fewer below \<open>2^-1022\<close> where the spacing of the floats
  stays \<open>2^-1074\<close>, and is an infinity from \<open>2^1024\<close> on.
\<close>

definition round_ratio :: "bool \<Rightarrow> nat \<Rightarrow> nat \<Rightarrow> double" where
  "round_ratio s a b =
     (if a = 0 then Finite s 0 0
      else
        (let ex = max (floor_log2 a b - 52) (- 1074);
             n = (if 0 \<le> ex then round_half_even_div a (b * 2 ^ nat ex)
                  else round_half_even_div (a * 2 ^ nat (- ex)) b)
         in if 1024 < int (bitlen n) + ex then Infinity s else Finite s n ex))"

text \<open>The product \<open>x * y\<close> of two floats; it raises nothing.\<close>

fun fmul :: "double \<Rightarrow> double \<Rightarrow> double" where
  "fmul NaN y = NaN"
| "fmul x NaN = NaN"
| "fmul (Infinity s) (Infinity t) = Infinity (s \<noteq> t)"
| "fmul (Infinity s) (Finite t n f) = (if n = 0 then NaN else Infinity (s \<noteq> t))"
| "fmul (Finite s m e) (Infinity t) = (if m = 0 then NaN else Infinity (s \<noteq> t))"
| "fmul (Finite s m e) (Finite t n f) =
     (if 0 \<le> e + f then round_ratio (s \<noteq> t) (m * n * 2 ^ nat (e + f)) 1
      else round_ratio (s \<noteq> t) (m * n) (2 ^ nat (- (e + f))))"

text \<open>The quotient \<open>x / k\<close> of a float by the float of a positive integer \<open>k\<close> that a float
  holds exactly.\<close>

fun fdiv_int :: "double \<Rightarrow> nat \<Rightarrow> double" where
  "fdiv_int NaN k = NaN"
| "fdiv_int (Infinity s) k = Infinity s"
| "fdiv_int (Finite s m e) k =
     (if 0 \<le> e then round_ratio s (m * 2 ^ nat e) k
      else round_ratio s m (k * 2 ^ nat (- e)))"

text \<open>The float literals \<open>1e-9\<close>, \<open>1e-3\<close> and \<open>0.0\<close>: the floats nearest to the decimal
  numbers.\<close>

definition float_1e_minus_9 :: double where
  "float_1e_minus_9 = Finite False 4835703278458517 (- 82)"

definition float_1e_minus_3 :: double where
  "float_1e_minus_3 = Finite False 1152921504606847 (- 60)"

definition float_zero :: double where
  "float_zero = Finite False 0 0"

text \<open>
  The format specification \<open>.<d>f\<close>: \<open>nan\<close>, \<open>inf\<close> or \<open>-inf\<close>, and for a finite float a
  minus sign if its sign is set, then the integer digits and \<open>d\<close> fraction digits of its
  exact value rounded to \<open>d\<close> places, a tie going to the even neighbour.
\<close>

definition digit_char :: "nat \<Rightarrow> char" where
  "digit_char n = ''0123456789'' ! n"

fun str_nat :: "nat \<Rightarrow> string" where
  "str_nat n = (if n < 10 then [digit_char n] else str_nat (n div 10) @ [digit_char (n mod 10)])"

fun format_f :: "nat \<Rightarrow> double \<Rightarrow> string" where
  "format_f d NaN = ''nan''"
| "format_f d (Infinity s) = (if s then ''-inf'' else ''inf'')"
| "format_f d (Finite s m e) =
     (let n = (if 0 \<le> e then m * 2 ^ nat e * 10 ^ d
               else round_half_even_div (m * 10 ^ d) (2 ^ nat (- e)));
          frac_digits = str_nat (n mod 10 ^ d)
      in (if s then ''-'' else []) @ str_nat (n div 10 ^ d) @
         (if d = 0 then []
          else ''.'' @ replicate (d - length frac_digits) (CHR ''0'') @ frac_digits))"

subsection \<open>The result logger\<close>

record fit_parameters =
  frequency :: double
  fwhm :: double
  outcome :: string

text \<open>
  A value of \<open>fit_results\<close> is a \<open>FitParameters\<close> object or a dictionary. Of the
  dictionary the logger reads three keys with \<open>get\<close>; it is modelled by what it holds
  under them, with values of the types \<open>FitParameters\<close> declares.
\<close>

record results_dict =
  get_outcome :: "string option"
  get_frequency :: "double option"
  get_fwhm :: "double option"

datatype results = Object fit_parameters | Dict results_dict

text \<open>The body of the loop of \<open>log_fitted_results\<close>: the text passed to \<open>log_callable\<close>.\<close>

definition log_message :: "string \<Rightarrow> results \<Rightarrow> string" where
  "log_message qubit_name res =
     (let status_line = ''Results for qubit '' @ qubit_name @ '': '';
          out = (case res of Object p \<Rightarrow> outcome p
                 | Dict d \<Rightarrow> (case get_outcome d of None \<Rightarrow> ''unknown'' | Some s \<Rightarrow> s));
          freq = (case res of Object p \<Rightarrow> frequency p
                  | Dict d \<Rightarrow> (case get_frequency d of None \<Rightarrow> float_zero | Some x \<Rightarrow> x));
          width = (case res of Object p \<Rightarrow> fwhm p
                   | Dict d \<Rightarrow> (case get_fwhm d of None \<Rightarrow> float_zero | Some x \<Rightarrow> x));
          status_line' =
            (if out = ''successful'' then status_line @ '' SUCCESS!'' @ [CHR 0x0A]
             else status_line @ '' FAIL! Reason: '' @ out @ [CHR 0x0A]);
          freq_str =
            [CHR 0x09] @ ''Resonator frequency: '' @
            format_f 3 (fmul freq float_1e_minus_9) @ '' GHz | '';
          fwhm_str = ''FWHM: '' @ format_f 1 (fmul width float_1e_minus_3) @ '' kHz | ''
      in status_line' @ freq_str @ fwhm_str)"

text \<open>
  \<open>log_fitted_results\<close>: \<open>fit_results\<close> is the dictionary's items in insertion order, and
  the second argument is what \<open>log_callable\<close> has received so far.
\<close>

fun log_fitted_results :: "(string \<times> results) list \<Rightarrow> string list \<Rightarrow> string list" where
  "log_fitted_results [] emitted = emitted"
| "log_fitted_results ((qubit_name, res) # rest) emitted =
     log_fitted_results rest (emitted @ [log_message qubit_name res])"

subsection \<open>Well-formed metrics\<close>

text \<open>
  The metrics dictionary that the extractor builds holds a number under eight keys and a
  boolean under \<open>opx_bandwidth_artifact\<close>. \<open>val\<close> and \<open>flag\<close> read such a dictionary.
\<close>

definition numeric_keys :: "string list" where
  "numeric_keys =
     [''num_peaks'', ''snr'', ''fwhm'', ''sweep_span'', ''asymmetry'', ''skewness'',
      ''nrmse'', ''r_squared'']"

definition is_number :: "py_dict \<Rightarrow> string \<Rightarrow> bool" where
  "is_number m k = (case m k of None \<Rightarrow> False | Some v \<Rightarrow> num v \<noteq> None)"

definition is_boolean :: "py_dict \<Rightarrow> string \<Rightarrow> bool" where
  "is_boolean m k = (case m k of Some (PyBool b) \<Rightarrow> True | _ \<Rightarrow> False)"

definition well_formed :: "py_dict \<Rightarrow> bool" where
  "well_formed m =
     (list_all (is_number m) numeric_keys \<and> is_boolean m ''opx_bandwidth_artifact'')"

definition val :: "py_dict \<Rightarrow> string \<Rightarrow> real" where
  "val m k = (case m k of None \<Rightarrow> 0 | Some v \<Rightarrow> (case num v of None \<Rightarrow> 0 | Some x \<Rightarrow> x))"

definition flag :: "py_dict \<Rightarrow> string \<Rightarrow> bool" where
  "flag m k = (case m k of None \<Rightarrow> False | Some v \<Rightarrow> truthy v)"

text \<open>The entry under a key converts to a float without overflow: it is a float, a
  boolean, or an integer within the range of the finite floats.\<close>

definition holds_float :: "py_dict \<Rightarrow> string \<Rightarrow> bool" where
  "holds_float m k = (case m k of None \<Rightarrow> False | Some v \<Rightarrow> fits_float v)"

text \<open>The strings that the classifier returns on some input: \<open>successful\<close> and seven
  failure reasons.\<close>

definition returned_outcomes :: "string list" where
  "returned_outcomes =
     [msg_successful, msg_low_snr, msg_artifact, msg_several_peaks, msg_no_peaks,
      msg_shape_distorted, msg_low_snr_distorted, msg_distorted_peak]"

text \<open>A record of the nine metric values, and the dictionary that holds them, for writing
  concrete inputs.\<close>

record metric_values =
  v_num_peaks :: int
  v_snr :: real
  v_fwhm :: real
  v_sweep_span :: real
  v_asymmetry :: real
  v_skewness :: real
  v_opx_bandwidth_artifact :: bool
  v_nrmse :: real
  v_r_squared :: real

definition metrics_of :: "metric_values \<Rightarrow> py_dict" where
  "metrics_of q =
     [''num_peaks'' \<mapsto> PyInt (v_num_peaks q),
      ''snr'' \<mapsto> PyFloat (v_snr q),
      ''fwhm'' \<mapsto> PyFloat (v_fwhm q),
      ''sweep_span'' \<mapsto> PyFloat (v_sweep_span q),
      ''asymmetry'' \<mapsto> PyFloat (v_asymmetry q),
      ''skewness'' \<mapsto> PyFloat (v_skewness q),
      ''opx_bandwidth_artifact'' \<mapsto> PyBool (v_opx_bandwidth_artifact q),
      ''nrmse'' \<mapsto> PyFloat (v_nrmse q),
      ''r_squared'' \<mapsto> PyFloat (v_r_squared q)]"

text \<open>A single clean peak whose circle fit is poor: rule 1 does not fire, and no later
  rule does either.\<close>

definition clean_peak :: metric_values where
  "clean_peak =
     \<lparr>v_num_peaks = 1, v_snr = 10, v_fwhm = 100000, v_sweep_span = 10000000,
      v_asymmetry = 1.0, v_skewness = 0.1, v_opx_bandwidth_artifact = False,
      v_nrmse = 0.3, v_r_squared = 0.5\<rparr>"

subsection \<open>The classifier as the specification words it\<close>

text \<open>
  The specification's \<open>ClassifierConfig\<close> with its ten thresholds, and its decision
  cascade (section 4.2), in which rule 1 compares with the configuration's
  \<open>r_squared_threshold\<close> and \<open>nrmse_threshold\<close>.
\<close>

record classifier_config =
  cfg_snr_min :: real
  cfg_snr_distorted :: real
  cfg_asymmetry_min :: real
  cfg_asymmetry_max :: real
  cfg_skewness_max :: real
  cfg_distorted_fraction_low_snr :: real
  cfg_distorted_fraction_high_snr :: real
  cfg_fwhm_absolute_threshold_hz :: real
  cfg_nrmse_threshold :: real
  cfg_r_squared_threshold :: real

definition default_config :: classifier_config where
  "default_config =
     \<lparr>cfg_snr_min = 2.5, cfg_snr_distorted = 5.0, cfg_asymmetry_min = 0.4,
      cfg_asymmetry_max = 2.5, cfg_skewness_max = 1.5,
      cfg_distorted_fraction_low_snr = 0.2, cfg_distorted_fraction_high_snr = 0.3,
      cfg_fwhm_absolute_threshold_hz = 1000000, cfg_nrmse_threshold = 0.14,
      cfg_r_squared_threshold = 0.90\<rparr>"

definition classify_spec :: "metric_values \<Rightarrow> classifier_config \<Rightarrow> string" where
  "classify_spec q cfg =
     (if v_r_squared q > cfg_r_squared_threshold cfg \<and> v_nrmse q < cfg_nrmse_threshold cfg
      then msg_successful
      else if v_snr q < cfg_snr_min cfg then msg_low_snr
      else if v_opx_bandwidth_artifact q then msg_artifact
      else if v_num_peaks q > 1 then msg_several_peaks
      else if v_num_peaks q = 0 then
        (if v_snr q < cfg_snr_min cfg then msg_no_peaks_low_snr else msg_no_peaks)
      else if v_asymmetry q < cfg_asymmetry_min cfg \<or> v_asymmetry q > cfg_asymmetry_max cfg
              \<or> \<bar>v_skewness q\<bar> > cfg_skewness_max cfg
      then msg_shape_distorted
      else
        (let distorted_fraction =
               (if v_snr q < cfg_snr_distorted cfg then cfg_distorted_fraction_low_snr cfg
                else cfg_distorted_fraction_high_snr cfg)
         in if (v_sweep_span q > 0 \<and> v_fwhm q / v_sweep_span q > distorted_fraction)
               \<or> v_fwhm q > cfg_fwhm_absolute_threshold_hz cfg
            then (if v_snr q < cfg_snr_distorted cfg then msg_low_snr_distorted
                  else msg_distorted_peak)
            else msg_successful))"

text \<open>The call of the source's classifier with a configuration: the eight thresholds that
  its signature takes.\<close>

definition classify_with :: "metric_values \<Rightarrow> classifier_config \<Rightarrow> py_error + string" where
  "classify_with q cfg =
     determine_resonator_outcome (metrics_of q) (cfg_snr_min cfg) (cfg_snr_distorted cfg)
       (cfg_asymmetry_min cfg) (cfg_asymmetry_max cfg) (cfg_skewness_max cfg)
       (cfg_distorted_fraction_low_snr cfg) (cfg_distorted_fraction_high_snr cfg)
       (cfg_fwhm_absolute_threshold_hz cfg)"

subsection \<open>The log line as the specification words it\<close>

text \<open>
  The line of section 4.4. Three of its parts are parameters: the text between the colon
  and the \<open>SUCCESS!\<close> or \<open>FAIL!\<close> token, and the scalings of the frequency to GHz and of the
  width to kHz. The specification has one space and the quotients \<open>freq/1e9\<close> and
  \<open>fwhm/1e3\<close>. \<open>fields_of\<close> is the record that a loosely-typed value stands for: a
  missing outcome is \<open>unknown\<close>, a missing number is \<open>0.0\<close>.
\<close>

definition report_line ::
  "string \<Rightarrow> (double \<Rightarrow> double) \<Rightarrow> (double \<Rightarrow> double) \<Rightarrow> string \<Rightarrow> fit_parameters \<Rightarrow> string"
  where
  "report_line gap to_ghz to_khz qubit_name p =
     ''Results for qubit '' @ qubit_name @ '':'' @ gap @
     (if outcome p = ''successful'' then ''SUCCESS!'' else ''FAIL! Reason: '' @ outcome p) @
     [CHR 0x0A, CHR 0x09] @
     ''Resonator frequency: '' @ format_f 3 (to_ghz (frequency p)) @ '' GHz | '' @
     ''FWHM: '' @ format_f 1 (to_khz (fwhm p)) @ '' kHz | ''"

definition spec_line :: "string \<Rightarrow> fit_parameters \<Rightarrow> string" where
  "spec_line qubit_name p =
     report_line '' '' (\<lambda>x. fdiv_int x (10 ^ 9)) (\<lambda>x. fdiv_int x (10 ^ 3)) qubit_name p"

definition fields_of :: "results \<Rightarrow> fit_parameters" where
  "fields_of res =
     (case res of Object p \<Rightarrow> p
      | Dict d \<Rightarrow>
          \<lparr>frequency = (case get_frequency d of None \<Rightarrow> float_zero | Some x \<Rightarrow> x),
           fwhm = (case get_fwhm d of None \<Rightarrow> float_zero | Some x \<Rightarrow> x),
           outcome = (case get_outcome d of None \<Rightarrow> ''unknown'' | Some s \<Rightarrow> s)\<rparr>)"

subsection \<open>Concrete datasets\<close>

text \<open>A fit dataset of two qubits swept over five detunings, and its fitters.\<close>

definition slice_q1 :: py_dict where
  "slice_q1 =
     [''num_peaks'' \<mapsto> PyInt 1, ''snr'' \<mapsto> PyFloat 10, ''fwhm'' \<mapsto> PyFloat 100000,
      ''asymmetry'' \<mapsto> PyFloat 1.0, ''skewness'' \<mapsto> PyFloat 0.1,
      ''opx_bandwidth_artifact'' \<mapsto> PyBool True]"

definition slice_q2 :: py_dict where
  "slice_q2 =
     [''num_peaks'' \<mapsto> PyInt 0, ''snr'' \<mapsto> PyFloat 3, ''fwhm'' \<mapsto> PyFloat 2000000,
      ''asymmetry'' \<mapsto> PyFloat 0.9, ''skewness'' \<mapsto> PyFloat (- 0.2),
      ''opx_bandwidth_artifact'' \<mapsto> PyBool False]"

definition fit_two :: dataset where
  "fit_two =
     \<lparr>dims = [''qubit'', ''detuning''],
      coords = [''detuning'' \<mapsto> [- 2000000, - 1000000, 0, 1000000, 2000000]],
      qubit_index = [''q1'' \<mapsto> slice_q1, ''q2'' \<mapsto> slice_q2]\<rparr>"

definition fitters_two :: "string \<rightharpoonup> fitter" where
  "fitters_two =
     [''q1'' \<mapsto> \<lparr>quality_metrics = [''nrmse'' \<mapsto> PyFloat 0.05, ''r_squared'' \<mapsto> PyFloat 0.95]\<rparr>,
      ''q2'' \<mapsto> \<lparr>quality_metrics = [''nrmse'' \<mapsto> PyFloat 0.3, ''r_squared'' \<mapsto> PyFloat 0.5]\<rparr>]"

text \<open>The same dataset with the variable \<open>snr\<close> absent from the slice of \<open>q1\<close>.\<close>

definition fit_no_snr :: dataset where
  "fit_no_snr =
     fit_two\<lparr>qubit_index := [''q1'' \<mapsto> slice_q1(''snr'' := None), ''q2'' \<mapsto> slice_q2]\<rparr>"

section \<open>Properties\<close>

subsection \<open>Auxiliary facts\<close>

lemma bnd_Inl [simp]: "bnd (Inl e) f = Inl e" by (simp add: bnd_def)
lemma bnd_Inr [simp]: "bnd (Inr v) f = f v" by (simp add: bnd_def)
lemma getitem_Some: "d k = Some v \<Longrightarrow> getitem d k = Inr v" by (simp add: getitem_def)
lemma py_lt_num: "num v = Some x \<Longrightarrow> py_lt v t = Inr (x < t)" by (simp add: py_lt_def)
lemma py_gt_num: "num v = Some x \<Longrightarrow> py_gt v t = Inr (x > t)" by (simp add: py_gt_def)
lemma py_eq_num: "num v = Some x \<Longrightarrow> py_eq v t = (x = t)" by (simp add: py_eq_def)
lemma py_and_Inr [simp]: "py_and (Inr x) b = (if x then b else Inr False)" by (simp add: py_and_def)

lemma is_number_val:
  "is_number m k \<Longrightarrow> \<exists>v. m k = Some v \<and> num v = Some (val m k)"
  by (auto simp: is_number_def val_def split: option.splits)

lemma is_boolean_flag:
  "is_boolean m k \<Longrightarrow> m k = Some (PyBool (flag m k))"
  by (auto simp: is_boolean_def flag_def split: option.splits py_value.splits)

lemma int_quotient_bound:
  assumes "j \<noteq> 0" and "\<bar>i\<bar> < (L::int)"
  shows "\<bar>real_of_int i / real_of_int j\<bar> < real_of_int L"
proof -
  from assms(1) have "1 \<le> \<bar>j\<bar>" by simp
  then have "1 \<le> real_of_int \<bar>j\<bar>" by (simp only: of_int_1_le_iff)
  then have j1: "1 \<le> \<bar>real_of_int j\<bar>" by simp
  have "\<bar>real_of_int i\<bar> / \<bar>real_of_int j\<bar> \<le> \<bar>real_of_int i\<bar> / 1"
    by (rule divide_left_mono) (use j1 in simp_all)
  moreover from assms(2) have "real_of_int \<bar>i\<bar> < real_of_int L"
    by (simp only: of_int_less_iff)
  then have "\<bar>real_of_int i\<bar> < real_of_int L" by simp
  ultimately show ?thesis by simp
qed

lemma truediv_num:
  assumes "fits_float a" and "fits_float b" and "num a = Some x" and "num b = Some y"
    and "y \<noteq> 0"
  shows "py_truediv a b = Inr (x / y)"
proof (cases "int_of a")
  case None
  with assms show ?thesis
    by (cases a; cases b) (auto simp: py_truediv_def to_float_def fits_float_def)
next
  case ia: (Some i)
  show ?thesis
  proof (cases "int_of b")
    case None
    with ia assms show ?thesis
      by (cases a; cases b) (auto simp: py_truediv_def to_float_def fits_float_def)
  next
    case (Some j)
    from ia assms(3) have x: "x = real_of_int i" and na: "a \<noteq> PyNone"
      by (cases a; auto)+
    from Some assms(4) have y: "y = real_of_int j" and nb: "b \<noteq> PyNone"
      by (cases b; auto)+
    from ia assms(1) have "\<bar>i\<bar> < float_limit"
      by (cases a) (auto simp: fits_float_def float_limit_def)
    moreover from y assms(5) have "j \<noteq> 0" by auto
    ultimately have "\<bar>real_of_int i / real_of_int j\<bar> < real_of_int float_limit"
      by (rule int_quotient_bound [rotated])
    then have "\<not> real_of_int float_limit \<le> \<bar>real_of_int i / real_of_int j\<bar>"
      by (simp only: not_le)
    with ia Some na nb x y \<open>j \<noteq> 0\<close> show ?thesis
      unfolding py_truediv_def by (simp del: abs_divide of_int_abs)
  qed
qed

text \<open>
  An integer beyond the range of the floats: the quotient by 1 and the conversion of the
  divisor overflow, the quotient of two such integers need not.
\<close>

lemma huge_int_division:
  "py_truediv (PyInt (10 ^ 400)) (PyInt 1) = Inl OverflowError"
  "py_truediv (PyFloat 100000) (PyInt (10 ^ 400)) = Inl OverflowError"
  "py_truediv (PyInt (10 ^ 400)) (PyInt (10 ^ 400)) = Inr 1"
  by (simp_all add: py_truediv_def to_float_def float_limit_def)

lemma too_wide_num:
  assumes "num fw = Some w" and "num sp = Some s" and "num sn = Some r"
    and "fits_float fw" and "fits_float sp"
  shows "is_peak_too_wide fw sp sn snr_distorted lo hi thr =
           Inr ((s > 0 \<and> w / s > (if r < snr_distorted then lo else hi)) \<or> w > thr)"
proof (cases "s > 0")
  case True
  then have "py_truediv fw sp = Inr (w / s)"
    using assms by (simp add: truediv_num)
  with True assms(1-3) show ?thesis
    by (simp add: is_peak_too_wide_def py_lt_num py_gt_num Let_def)
next
  case False
  with assms(1-3) show ?thesis
    by (simp add: is_peak_too_wide_def py_lt_num py_gt_num Let_def)
qed

lemma too_wide_no_division:
  assumes "num fw = Some w" and "num sp = Some s" and "num sn = Some r" and "\<not> s > 0"
  shows "is_peak_too_wide fw sp sn snr_distorted lo hi thr = Inr (w > thr)"
  using assms by (simp add: is_peak_too_wide_def py_lt_num py_gt_num Let_def)

lemma shape_num:
  assumes "num av = Some a" and "num sv = Some s"
  shows "is_peak_shape_distorted av sv amin amax smax = (a < amin \<or> a > amax \<or> \<bar>s\<bar> > smax)"
  using assms by (auto simp: is_peak_shape_distorted_def)

lemma outcome_cascade:
  assumes "well_formed m"
    and "m ''fwhm'' = Some fw" and "m ''sweep_span'' = Some sp" and "m ''snr'' = Some sn"
  shows "determine_resonator_outcome m snr_min snr_distorted asymmetry_min asymmetry_max
           skewness_max lo hi thr =
         (if val m ''r_squared'' > R_SQUARED_THRESHOLD \<and> val m ''nrmse'' < NRMSE_THRESHOLD
          then Inr msg_successful
          else if val m ''snr'' < snr_min then Inr msg_low_snr
          else if flag m ''opx_bandwidth_artifact'' then Inr msg_artifact
          else if val m ''num_peaks'' > 1 then Inr msg_several_peaks
          else if val m ''num_peaks'' = 0 then Inr msg_no_peaks
          else if val m ''asymmetry'' < asymmetry_min \<or> val m ''asymmetry'' > asymmetry_max
                  \<or> \<bar>val m ''skewness''\<bar> > skewness_max
          then Inr msg_shape_distorted
          else bnd (is_peak_too_wide fw sp sn snr_distorted lo hi thr) (\<lambda>too_wide.
                 if too_wide
                 then (if val m ''snr'' < snr_distorted then Inr msg_low_snr_distorted
                       else Inr msg_distorted_peak)
                 else Inr msg_successful))"
proof -
  from assms(1) have n: "is_number m ''num_peaks''" "is_number m ''snr''" "is_number m ''fwhm''"
    "is_number m ''sweep_span''" "is_number m ''asymmetry''" "is_number m ''skewness''"
    "is_number m ''nrmse''" "is_number m ''r_squared''"
    and b: "is_boolean m ''opx_bandwidth_artifact''"
    by (simp_all add: well_formed_def numeric_keys_def)
  from n obtain v1 v2 v5 v6 v8 v9 where k:
    "m ''num_peaks'' = Some v1" "num v1 = Some (val m ''num_peaks'')"
    "m ''snr'' = Some v2" "num v2 = Some (val m ''snr'')"
    "m ''asymmetry'' = Some v5" "num v5 = Some (val m ''asymmetry'')"
    "m ''skewness'' = Some v6" "num v6 = Some (val m ''skewness'')"
    "m ''nrmse'' = Some v8" "num v8 = Some (val m ''nrmse'')"
    "m ''r_squared'' = Some v9" "num v9 = Some (val m ''r_squared'')"
    by (metis is_number_val)
  from k(3) assms(4) have sn: "v2 = sn" by simp
  note f = is_boolean_flag [OF b]
  show ?thesis
    unfolding determine_resonator_outcome_def
    by (simp add: getitem_Some k f assms(2,3) py_lt_num [OF k(4)] py_gt_num [OF k(2)]
        py_gt_num [OF k(12)] py_lt_num [OF k(10)] py_eq_num [OF k(2)] shape_num [OF k(6) k(8)]
        sn [symmetric] cong: if_cong)
qed

lemma outcome_well_formed:
  assumes "well_formed m" and "holds_float m ''fwhm''" and "holds_float m ''sweep_span''"
  shows "determine_resonator_outcome m snr_min snr_distorted asymmetry_min asymmetry_max
           skewness_max lo hi thr =
         Inr (if val m ''r_squared'' > R_SQUARED_THRESHOLD \<and> val m ''nrmse'' < NRMSE_THRESHOLD
              then msg_successful
              else if val m ''snr'' < snr_min then msg_low_snr
              else if flag m ''opx_bandwidth_artifact'' then msg_artifact
              else if val m ''num_peaks'' > 1 then msg_several_peaks
              else if val m ''num_peaks'' = 0 then msg_no_peaks
              else if val m ''asymmetry'' < asymmetry_min \<or> val m ''asymmetry'' > asymmetry_max
                      \<or> \<bar>val m ''skewness''\<bar> > skewness_max
              then msg_shape_distorted
              else if (val m ''sweep_span'' > 0 \<and>
                       val m ''fwhm'' / val m ''sweep_span'' >
                         (if val m ''snr'' < snr_distorted then lo else hi))
                      \<or> val m ''fwhm'' > thr
              then (if val m ''snr'' < snr_distorted then msg_low_snr_distorted
                    else msg_distorted_peak)
              else msg_successful)"
proof -
  from assms(1) have "is_number m ''fwhm''" "is_number m ''sweep_span''" "is_number m ''snr''"
    by (simp_all add: well_formed_def numeric_keys_def)
  then obtain fw sp sn where k:
    "m ''fwhm'' = Some fw" "num fw = Some (val m ''fwhm'')"
    "m ''sweep_span'' = Some sp" "num sp = Some (val m ''sweep_span'')"
    "m ''snr'' = Some sn" "num sn = Some (val m ''snr'')"
    by (metis is_number_val)
  from assms(2,3) k(1,3) have s: "fits_float fw" "fits_float sp"
    by (simp_all add: holds_float_def)
  show ?thesis
    unfolding outcome_cascade [OF assms(1) k(1) k(3) k(5)]
      too_wide_num [OF k(2) k(4) k(6) s]
    by simp
qed

lemma no_peaks_low_snr_not_returned:
  "determine_resonator_outcome m snr_min snr_distorted asymmetry_min asymmetry_max
           skewness_max lo hi thr \<noteq> Inr msg_no_peaks_low_snr"
proof -
  have d: "msg_no_peaks_low_snr \<noteq> msg_successful" "msg_no_peaks_low_snr \<noteq> msg_low_snr"
    "msg_no_peaks_low_snr \<noteq> msg_artifact" "msg_no_peaks_low_snr \<noteq> msg_several_peaks"
    "msg_no_peaks_low_snr \<noteq> msg_no_peaks" "msg_no_peaks_low_snr \<noteq> msg_shape_distorted"
    "msg_no_peaks_low_snr \<noteq> msg_low_snr_distorted" "msg_no_peaks_low_snr \<noteq> msg_distorted_peak"
    by (simp_all add: msg_no_peaks_low_snr_def msg_successful_def msg_low_snr_def msg_artifact_def
        msg_several_peaks_def msg_no_peaks_def msg_shape_distorted_def msg_low_snr_distorted_def
        msg_distorted_peak_def)
  show ?thesis
    unfolding determine_resonator_outcome_def
    using d
    by (auto simp: bnd_def split: sum.splits if_splits)
qed

lemma keys_present:
  assumes "set metric_keys \<subseteq> dom metrics"
  obtains v1 v2 v3 v4 v5 v6 v7 v8 v9 where
    "metrics ''num_peaks'' = Some v1" "metrics ''snr'' = Some v2" "metrics ''fwhm'' = Some v3"
    "metrics ''sweep_span'' = Some v4" "metrics ''asymmetry'' = Some v5"
    "metrics ''skewness'' = Some v6" "metrics ''opx_bandwidth_artifact'' = Some v7"
    "metrics ''nrmse'' = Some v8" "metrics ''r_squared'' = Some v9"
proof -
  from assms have "\<forall>k \<in> set metric_keys. \<exists>v. metrics k = Some v" by auto
  then show ?thesis using that unfolding metric_keys_def by (simp only: list.set ball_simps) blast
qed

lemma metrics_of_well_formed: "well_formed (metrics_of q)"
  by (simp add: well_formed_def numeric_keys_def is_number_def is_boolean_def metrics_of_def)

lemma metrics_of_keys: "set metric_keys \<subseteq> dom (metrics_of q)"
  by (simp add: metric_keys_def metrics_of_def)

lemma metrics_of_lookup:
  "metrics_of q ''num_peaks'' = Some (PyInt (v_num_peaks q))"
  "metrics_of q ''snr'' = Some (PyFloat (v_snr q))"
  "metrics_of q ''fwhm'' = Some (PyFloat (v_fwhm q))"
  "metrics_of q ''sweep_span'' = Some (PyFloat (v_sweep_span q))"
  "metrics_of q ''asymmetry'' = Some (PyFloat (v_asymmetry q))"
  "metrics_of q ''skewness'' = Some (PyFloat (v_skewness q))"
  "metrics_of q ''opx_bandwidth_artifact'' = Some (PyBool (v_opx_bandwidth_artifact q))"
  "metrics_of q ''nrmse'' = Some (PyFloat (v_nrmse q))"
  "metrics_of q ''r_squared'' = Some (PyFloat (v_r_squared q))"
  by (simp_all add: metrics_of_def)

lemma val_metrics_of:
  "val (metrics_of q) ''num_peaks'' = of_int (v_num_peaks q)"
  "val (metrics_of q) ''snr'' = v_snr q"
  "val (metrics_of q) ''fwhm'' = v_fwhm q"
  "val (metrics_of q) ''sweep_span'' = v_sweep_span q"
  "val (metrics_of q) ''asymmetry'' = v_asymmetry q"
  "val (metrics_of q) ''skewness'' = v_skewness q"
  "val (metrics_of q) ''nrmse'' = v_nrmse q"
  "val (metrics_of q) ''r_squared'' = v_r_squared q"
  "flag (metrics_of q) ''opx_bandwidth_artifact'' = v_opx_bandwidth_artifact q"
  by (simp_all add: val_def flag_def metrics_of_lookup)

lemma metrics_of_holds_float:
  "holds_float (metrics_of q) ''fwhm''" "holds_float (metrics_of q) ''sweep_span''"
  by (simp_all add: holds_float_def fits_float_def metrics_of_lookup)

lemmas outcome_metrics_of =
  outcome_well_formed [OF metrics_of_well_formed metrics_of_holds_float]

lemmas thresholds =
  SNR_MIN_def SNR_DISTORTED_def ASYMMETRY_MIN_def ASYMMETRY_MAX_def SKEWNESS_MAX_def
  DISTORTED_FRACTION_LOW_SNR_def DISTORTED_FRACTION_HIGH_SNR_def FWHM_ABSOLUTE_THRESHOLD_HZ_def
  NRMSE_THRESHOLD_def R_SQUARED_THRESHOLD_def

lemmas messages =
  msg_successful_def msg_low_snr_def msg_artifact_def msg_several_peaks_def
  msg_no_peaks_low_snr_def msg_no_peaks_def msg_shape_distorted_def msg_low_snr_distorted_def
  msg_distorted_peak_def

lemma default_metrics_of:
  "determine_resonator_outcome_default (metrics_of q) =
     determine_resonator_outcome (metrics_of q) 2.5 5.0 0.4 2.5 1.5 0.2 0.3 1000000"
  by (simp add: determine_resonator_outcome_default_def thresholds)

subsection \<open>Rule 1\<close>

text \<open>
  C1. A metrics dictionary that has its nine keys, with \<open>r_squared > 0.90\<close> and
  \<open>nrmse < 0.14\<close>, is classified \<open>successful\<close>, whatever it holds under the other seven
  keys and whatever thresholds the call passes: rule 1 returns before any later rule is
  evaluated.
\<close>

theorem good_fit_short_circuits:
  assumes "set metric_keys \<subseteq> dom metrics"
    and "metrics ''r_squared'' = Some r2v" and "num r2v = Some r2" and "r2 > 0.90"
    and "metrics ''nrmse'' = Some nv" and "num nv = Some n" and "n < 0.14"
  shows "determine_resonator_outcome metrics snr_min snr_distorted asymmetry_min
           asymmetry_max skewness_max distorted_fraction_low_snr
           distorted_fraction_high_snr fwhm_absolute_threshold = Inr ''successful''"
proof -
  from assms(1) obtain v1 v2 v3 v4 v5 v6 v7 v8 v9 where k:
    "metrics ''num_peaks'' = Some v1" "metrics ''snr'' = Some v2" "metrics ''fwhm'' = Some v3"
    "metrics ''sweep_span'' = Some v4" "metrics ''asymmetry'' = Some v5"
    "metrics ''skewness'' = Some v6" "metrics ''opx_bandwidth_artifact'' = Some v7"
    "metrics ''nrmse'' = Some v8" "metrics ''r_squared'' = Some v9"
    by (rule keys_present)
  from k assms have "v8 = nv" "v9 = r2v" by simp_all
  with assms k show ?thesis
    by (simp add: determine_resonator_outcome_def getitem_Some py_gt_num py_lt_num
        R_SQUARED_THRESHOLD_def NRMSE_THRESHOLD_def msg_successful_def)
qed

text \<open>An input of C1 that every later rule would reject: no peak, low SNR, an artifact,
  a distorted shape.\<close>

theorem good_fit_short_circuits_witness:
  "set metric_keys \<subseteq> dom (metrics_of (clean_peak\<lparr>v_num_peaks := 0, v_snr := 1, v_asymmetry := 10,
       v_opx_bandwidth_artifact := True, v_nrmse := 0.05, v_r_squared := 0.95\<rparr>))
   \<and> (0.95::real) > 0.90 \<and> (0.05::real) < 0.14
   \<and> determine_resonator_outcome
        (metrics_of (clean_peak\<lparr>v_num_peaks := 0, v_snr := 1, v_asymmetry := 10,
           v_opx_bandwidth_artifact := True, v_nrmse := 0.05, v_r_squared := 0.95\<rparr>))
        SNR_MIN SNR_DISTORTED ASYMMETRY_MIN ASYMMETRY_MAX SKEWNESS_MAX
        DISTORTED_FRACTION_LOW_SNR DISTORTED_FRACTION_HIGH_SNR FWHM_ABSOLUTE_THRESHOLD_HZ
      = Inr ''successful''"
  using good_fit_short_circuits [of
      "metrics_of (clean_peak\<lparr>v_num_peaks := 0, v_snr := 1, v_asymmetry := 10,
         v_opx_bandwidth_artifact := True, v_nrmse := 0.05, v_r_squared := 0.95\<rparr>)"
      "PyFloat 0.95" "0.95" "PyFloat 0.05" "0.05"
      SNR_MIN SNR_DISTORTED ASYMMETRY_MIN ASYMMETRY_MAX SKEWNESS_MAX
      DISTORTED_FRACTION_LOW_SNR DISTORTED_FRACTION_HIGH_SNR FWHM_ABSOLUTE_THRESHOLD_HZ]
  by (simp add: metrics_of_keys metrics_of_lookup clean_peak_def)

subsection \<open>Totality\<close>

text \<open>
  C2, as amended. On a well-formed metrics dictionary (a number under each of the eight
  numeric keys, a boolean artifact flag) whose \<open>fwhm\<close> and \<open>sweep_span\<close> are floats, as
  the extractor stores them, or integers within the range of the floats, the classifier
  raises nothing, equal inputs give equal results, and the result is one of eight strings:
  \<open>successful\<close>, which two paths return, or one of seven failure reasons.
\<close>

theorem outcome_total:
  assumes "well_formed m" and "holds_float m ''fwhm''" and "holds_float m ''sweep_span''"
  shows "(\<exists>s \<in> set returned_outcomes.
            determine_resonator_outcome m snr_min snr_distorted asymmetry_min asymmetry_max
              skewness_max distorted_fraction_low_snr distorted_fraction_high_snr
              fwhm_absolute_threshold = Inr s)
         \<and> (\<forall>m'. m' = m \<longrightarrow>
              determine_resonator_outcome m' snr_min snr_distorted asymmetry_min asymmetry_max
                skewness_max distorted_fraction_low_snr distorted_fraction_high_snr
                fwhm_absolute_threshold =
              determine_resonator_outcome m snr_min snr_distorted asymmetry_min asymmetry_max
                skewness_max distorted_fraction_low_snr distorted_fraction_high_snr
                fwhm_absolute_threshold)"
  by (simp add: outcome_well_formed [OF assms] returned_outcomes_def)

text \<open>C2 at the clean peak.\<close>

theorem outcome_total_witness:
  "well_formed (metrics_of clean_peak)
   \<and> holds_float (metrics_of clean_peak) ''fwhm''
   \<and> holds_float (metrics_of clean_peak) ''sweep_span''
   \<and> (\<exists>s \<in> set returned_outcomes.
         determine_resonator_outcome (metrics_of clean_peak) SNR_MIN SNR_DISTORTED ASYMMETRY_MIN
           ASYMMETRY_MAX SKEWNESS_MAX DISTORTED_FRACTION_LOW_SNR DISTORTED_FRACTION_HIGH_SNR
           FWHM_ABSOLUTE_THRESHOLD_HZ = Inr s)"
  using outcome_total [of "metrics_of clean_peak" SNR_MIN SNR_DISTORTED ASYMMETRY_MIN
      ASYMMETRY_MAX SKEWNESS_MAX DISTORTED_FRACTION_LOW_SNR DISTORTED_FRACTION_HIGH_SNR
      FWHM_ABSOLUTE_THRESHOLD_HZ]
  by (simp add: metrics_of_well_formed metrics_of_holds_float)

text \<open>
  C2 as stated counts six failure reasons. The default call returns seven, each on an
  input one change away from the clean peak; with \<open>successful\<close> the eight results are
  pairwise different.
\<close>

theorem seven_failure_reasons_returned:
  "map (\<lambda>q. determine_resonator_outcome_default (metrics_of q))
     [clean_peak,
      clean_peak\<lparr>v_snr := 1\<rparr>,
      clean_peak\<lparr>v_opx_bandwidth_artifact := True\<rparr>,
      clean_peak\<lparr>v_num_peaks := 2\<rparr>,
      clean_peak\<lparr>v_num_peaks := 0\<rparr>,
      clean_peak\<lparr>v_asymmetry := 10\<rparr>,
      clean_peak\<lparr>v_snr := 3, v_fwhm := 2000000\<rparr>,
      clean_peak\<lparr>v_fwhm := 2000000\<rparr>]
   = map Inr returned_outcomes
   \<and> distinct returned_outcomes \<and> length returned_outcomes = 1 + 7"
proof -
  have "distinct returned_outcomes"
    by (simp add: returned_outcomes_def messages)
  moreover have "length returned_outcomes = 1 + 7"
    by (simp add: returned_outcomes_def)
  moreover have "map (\<lambda>q. determine_resonator_outcome_default (metrics_of q))
     [clean_peak,
      clean_peak\<lparr>v_snr := 1\<rparr>,
      clean_peak\<lparr>v_opx_bandwidth_artifact := True\<rparr>,
      clean_peak\<lparr>v_num_peaks := 2\<rparr>,
      clean_peak\<lparr>v_num_peaks := 0\<rparr>,
      clean_peak\<lparr>v_asymmetry := 10\<rparr>,
      clean_peak\<lparr>v_snr := 3, v_fwhm := 2000000\<rparr>,
      clean_peak\<lparr>v_fwhm := 2000000\<rparr>]
   = map Inr returned_outcomes"
    by (simp add: default_metrics_of outcome_metrics_of
        val_metrics_of clean_peak_def returned_outcomes_def thresholds)
  ultimately show ?thesis by simp
qed

subsection \<open>Rule 5\<close>

text \<open>
  C3. For every metrics dictionary and all thresholds the classifier never returns the
  zero-peaks low-SNR message: rule 2 has already returned when \<open>snr < snr_min\<close>. When
  rule 5 fires (rules 1 to 4 do not, and \<open>num_peaks\<close> is zero) the result is the
  generic no-peaks message.
\<close>

theorem zero_peaks_low_snr_unreachable:
  "determine_resonator_outcome m snr_min snr_distorted asymmetry_min asymmetry_max
     skewness_max distorted_fraction_low_snr distorted_fraction_high_snr
     fwhm_absolute_threshold \<noteq> Inr msg_no_peaks_low_snr
   \<and> (well_formed m
        \<and> \<not> (val m ''r_squared'' > 0.90 \<and> val m ''nrmse'' < 0.14)
        \<and> \<not> val m ''snr'' < snr_min
        \<and> \<not> flag m ''opx_bandwidth_artifact''
        \<and> \<not> val m ''num_peaks'' > 1
        \<and> val m ''num_peaks'' = 0
        \<longrightarrow> determine_resonator_outcome m snr_min snr_distorted asymmetry_min asymmetry_max
              skewness_max distorted_fraction_low_snr distorted_fraction_high_snr
              fwhm_absolute_threshold = Inr msg_no_peaks)"
proof -
  have "determine_resonator_outcome m snr_min snr_distorted asymmetry_min asymmetry_max
          skewness_max distorted_fraction_low_snr distorted_fraction_high_snr
          fwhm_absolute_threshold = Inr msg_no_peaks"
    if wf: "well_formed m"
      and r1: "\<not> (val m ''r_squared'' > 0.90 \<and> val m ''nrmse'' < 0.14)"
      and r2: "\<not> val m ''snr'' < snr_min"
      and r3: "\<not> flag m ''opx_bandwidth_artifact''"
      and r4: "\<not> val m ''num_peaks'' > 1"
      and r5: "val m ''num_peaks'' = 0"
  proof -
    from wf have "is_number m ''fwhm''" "is_number m ''sweep_span''" "is_number m ''snr''"
      by (simp_all add: well_formed_def numeric_keys_def)
    then obtain fw sp sn where
      k: "m ''fwhm'' = Some fw" "m ''sweep_span'' = Some sp" "m ''snr'' = Some sn"
      by (metis is_number_val)
    from r1 r2 r3 r4 r5 show ?thesis
      unfolding outcome_cascade [OF wf k] by (auto simp: thresholds)
  qed
  then show ?thesis
    by (simp add: no_peaks_low_snr_not_returned)
qed

text \<open>C3 at the clean peak with no peak detected.\<close>

theorem zero_peaks_low_snr_unreachable_witness:
  "well_formed (metrics_of (clean_peak\<lparr>v_num_peaks := 0\<rparr>))
   \<and> \<not> (val (metrics_of (clean_peak\<lparr>v_num_peaks := 0\<rparr>)) ''r_squared'' > 0.90
         \<and> val (metrics_of (clean_peak\<lparr>v_num_peaks := 0\<rparr>)) ''nrmse'' < 0.14)
   \<and> \<not> val (metrics_of (clean_peak\<lparr>v_num_peaks := 0\<rparr>)) ''snr'' < SNR_MIN
   \<and> \<not> flag (metrics_of (clean_peak\<lparr>v_num_peaks := 0\<rparr>)) ''opx_bandwidth_artifact''
   \<and> \<not> val (metrics_of (clean_peak\<lparr>v_num_peaks := 0\<rparr>)) ''num_peaks'' > 1
   \<and> val (metrics_of (clean_peak\<lparr>v_num_peaks := 0\<rparr>)) ''num_peaks'' = 0
   \<and> determine_resonator_outcome (metrics_of (clean_peak\<lparr>v_num_peaks := 0\<rparr>)) SNR_MIN
        SNR_DISTORTED ASYMMETRY_MIN ASYMMETRY_MAX SKEWNESS_MAX DISTORTED_FRACTION_LOW_SNR
        DISTORTED_FRACTION_HIGH_SNR FWHM_ABSOLUTE_THRESHOLD_HZ
      = Inr ''No peaks were detected, consider changing the frequency range''"
  using zero_peaks_low_snr_unreachable [of "metrics_of (clean_peak\<lparr>v_num_peaks := 0\<rparr>)"
      SNR_MIN SNR_DISTORTED ASYMMETRY_MIN ASYMMETRY_MAX SKEWNESS_MAX
      DISTORTED_FRACTION_LOW_SNR DISTORTED_FRACTION_HIGH_SNR FWHM_ABSOLUTE_THRESHOLD_HZ]
  by (simp add: metrics_of_well_formed val_metrics_of clean_peak_def SNR_MIN_def msg_no_peaks_def)

subsection \<open>Rule 7\<close>



lemma val_update_other: "k \<noteq> k' \<Longrightarrow> val (m(k' \<mapsto> v)) k = val m k"
  by (simp add: val_def)

lemma flag_update_other: "k \<noteq> k' \<Longrightarrow> flag (m(k' \<mapsto> v)) k = flag m k"
  by (simp add: flag_def)

lemma well_formed_update_fwhm: "well_formed m \<Longrightarrow> well_formed (m(''fwhm'' \<mapsto> PyFloat w))"
  by (simp add: well_formed_def numeric_keys_def is_number_def is_boolean_def)

lemma val_update_fwhm: "val (m(''fwhm'' \<mapsto> PyFloat w)) ''fwhm'' = w"
  by (simp add: val_def)



lemma int_metric_compare:
  "(1 < (of_int n :: real)) = (1 < n)" "((of_int n :: real) = 0) = (n = 0)"
  by simp_all

subsection \<open>Thresholds\<close>

text \<open>
  C5, as amended. A call can override eight thresholds, and the decision uses the values
  passed; \<open>nrmse_threshold\<close> and \<open>r_squared_threshold\<close> are no arguments of the call,
  and rule 1 compares with the module constants 0.14 and 0.90. So the source's classifier
  under a configuration is the specification's cascade under that configuration with
  these two thresholds set back to the constants.
\<close>

theorem eight_thresholds_override:
  "classify_with q cfg =
     Inr (classify_spec q
            (cfg\<lparr>cfg_nrmse_threshold := NRMSE_THRESHOLD,
                 cfg_r_squared_threshold := R_SQUARED_THRESHOLD\<rparr>))"
  unfolding classify_with_def outcome_metrics_of val_metrics_of
    classify_spec_def
  by (simp add: int_metric_compare Let_def)

text \<open>
  C5 as stated has rule 1 use an overridden \<open>r_squared_threshold\<close>. With the
  threshold raised to 0.99, a fit with \<open>r_squared = 0.95\<close>, \<open>nrmse = 0.05\<close> and
  \<open>snr = 1\<close> is a low-SNR failure by the specification's cascade and \<open>successful\<close> by
  the source.
\<close>

theorem r_squared_threshold_not_overridable:
  "classify_with
     (clean_peak\<lparr>v_snr := 1, v_nrmse := 0.05, v_r_squared := 0.95\<rparr>)
     (default_config\<lparr>cfg_r_squared_threshold := 0.99\<rparr>)
   = Inr ''successful''
   \<and> classify_spec
       (clean_peak\<lparr>v_snr := 1, v_nrmse := 0.05, v_r_squared := 0.95\<rparr>)
       (default_config\<lparr>cfg_r_squared_threshold := 0.99\<rparr>)
     = ''The SNR isn't large enough, consider increasing the number of shots''
   \<and> classify_with
       (clean_peak\<lparr>v_snr := 1, v_nrmse := 0.05, v_r_squared := 0.95\<rparr>)
       (default_config\<lparr>cfg_r_squared_threshold := 0.99\<rparr>)
     \<noteq> Inr (classify_spec
              (clean_peak\<lparr>v_snr := 1, v_nrmse := 0.05, v_r_squared := 0.95\<rparr>)
              (default_config\<lparr>cfg_r_squared_threshold := 0.99\<rparr>))"
proof -
  have c: "classify_with
     (clean_peak\<lparr>v_snr := 1, v_nrmse := 0.05, v_r_squared := 0.95\<rparr>)
     (default_config\<lparr>cfg_r_squared_threshold := 0.99\<rparr>)
   = Inr ''successful''"
    unfolding classify_with_def outcome_metrics_of val_metrics_of
    by (simp add: clean_peak_def default_config_def thresholds messages)
  have s: "classify_spec
       (clean_peak\<lparr>v_snr := 1, v_nrmse := 0.05, v_r_squared := 0.95\<rparr>)
       (default_config\<lparr>cfg_r_squared_threshold := 0.99\<rparr>)
     = ''The SNR isn't large enough, consider increasing the number of shots''"
    by (simp add: classify_spec_def clean_peak_def default_config_def messages)
  show ?thesis unfolding c s by simp
qed

subsection \<open>The metric extractor\<close>

lemma bnd_eq_Inr: "bnd r f = Inr y \<longleftrightarrow> (\<exists>v. r = Inr v \<and> f v = Inr y)"
  by (cases r) (simp_all add: bnd_def)

lemma getattr_var_Inr: "getattr_var d k = Inr v \<longleftrightarrow> d k = Some v"
  by (simp add: getattr_var_def split: option.splits)

lemma getitem_Inr: "getitem d k = Inr v \<longleftrightarrow> d k = Some v"
  by (simp add: getitem_def split: option.splits)

lemma sel_qubit_Inr: "sel_qubit fit q = Inr d \<longleftrightarrow> qubit_index fit q = Some d"
  by (simp add: sel_qubit_def split: option.splits)

lemma getitem_fitter_Inr: "getitem_fitter fs q = Inr f \<longleftrightarrow> fs q = Some f"
  by (simp add: getitem_fitter_def split: option.splits)

lemma extract_InrD:
  assumes "extract_qubit_fit_metrics fit fitters q = Inr metrics"
  shows "\<exists>qd ft span np sn fw asy skw raw nr r2.
    qubit_index fit q = Some qd \<and> fitters q = Some ft \<and>
    sweep_span_of fit = Inr span \<and>
    bnd (getattr_var qd ''num_peaks'') py_int = Inr np \<and>
    bnd (getattr_var qd ''snr'') py_float = Inr sn \<and>
    bnd (getattr_var qd ''fwhm'') py_float = Inr fw \<and>
    bnd (getattr_var qd ''asymmetry'') py_float = Inr asy \<and>
    bnd (getattr_var qd ''skewness'') py_float = Inr skw \<and>
    qd ''opx_bandwidth_artifact'' = Some raw \<and>
    quality_metrics ft ''nrmse'' = Some nr \<and>
    quality_metrics ft ''r_squared'' = Some r2 \<and>
    metrics = [''num_peaks'' \<mapsto> PyInt np, ''snr'' \<mapsto> PyFloat sn, ''fwhm'' \<mapsto> PyFloat fw,
       ''sweep_span'' \<mapsto> PyFloat span, ''asymmetry'' \<mapsto> PyFloat asy,
       ''skewness'' \<mapsto> PyFloat skw, ''opx_bandwidth_artifact'' \<mapsto> PyBool (\<not> truthy raw),
       ''nrmse'' \<mapsto> nr, ''r_squared'' \<mapsto> r2]"
  using assms unfolding extract_qubit_fit_metrics_def
  apply (simp only: bnd_eq_Inr sel_qubit_Inr getitem_fitter_Inr getattr_var_Inr getitem_Inr
      sum.inject)
  apply (elim exE conjE)
  apply (intro exI conjI)
  apply (assumption | rule sym)+
  done



lemma fold_max_ge: "(x::real) \<le> fold max xs x"
proof (induction xs arbitrary: x)
  case Nil
  show ?case by simp
next
  case (Cons y ys)
  have "x \<le> max y x" by simp
  also have "\<dots> \<le> fold max ys (max y x)" by (rule Cons.IH)
  finally show ?case by simp
qed

lemma fold_min_le: "fold min xs (x::real) \<le> x"
proof (induction xs arbitrary: x)
  case Nil
  show ?case by simp
next
  case (Cons y ys)
  have "fold min ys (min y x) \<le> min y x" by (rule Cons.IH)
  also have "\<dots> \<le> x" by simp
  finally show ?case by simp
qed

lemma coord_span_nonneg:
  assumes "coord_span fit name = Inr s"
  shows "0 \<le> s"
proof (cases "coords fit name")
  case None
  with assms show ?thesis by (simp add: coord_span_def getitem_coord_def)
next
  case (Some xs)
  show ?thesis
  proof (cases xs)
    case Nil
    with Some assms show ?thesis by (simp add: coord_span_def getitem_coord_def)
  next
    case (Cons x ys)
    with Some assms have "s = fold max ys x - fold min ys x"
      by (simp add: coord_span_def getitem_coord_def)
    moreover have "fold min ys x \<le> fold max ys x"
      using fold_min_le [of ys x] fold_max_ge [of x ys] by simp
    ultimately show ?thesis by simp
  qed
qed

text \<open>
  C6. Whenever the extractor returns a metrics dictionary for a qubit, its
  \<open>opx_bandwidth_artifact\<close> entry is the negation of the truth value of the raw flag in
  the qubit's slice of the fit dataset; a raw \<open>True\<close> is extracted as \<open>False\<close>.
\<close>

theorem artifact_flag_inverted:
  assumes "extract_qubit_fit_metrics fit fitters qubit_name = Inr metrics"
    and "qubit_index fit qubit_name = Some qubit_data"
    and "qubit_data ''opx_bandwidth_artifact'' = Some raw"
  shows "metrics ''opx_bandwidth_artifact'' = Some (PyBool (\<not> truthy raw))
         \<and> (raw = PyBool True \<longrightarrow> metrics ''opx_bandwidth_artifact'' = Some (PyBool False))"
proof -
  from extract_InrD [OF assms(1)] assms(2,3)
  have "metrics ''opx_bandwidth_artifact'' = Some (PyBool (\<not> truthy raw))"
    by auto
  then show ?thesis by simp
qed

text \<open>C6 at qubit \<open>q1\<close> of the two-qubit dataset, whose raw flag is \<open>True\<close>.\<close>

theorem artifact_flag_inverted_witness:
  "(\<exists>metrics. extract_qubit_fit_metrics fit_two fitters_two ''q1'' = Inr metrics
      \<and> metrics ''opx_bandwidth_artifact'' = Some (PyBool False))
   \<and> qubit_index fit_two ''q1'' = Some slice_q1
   \<and> slice_q1 ''opx_bandwidth_artifact'' = Some (PyBool True)"
proof -
  obtain metrics where m: "extract_qubit_fit_metrics fit_two fitters_two ''q1'' = Inr metrics"
    by (simp add: extract_qubit_fit_metrics_def fit_two_def fitters_two_def slice_q1_def
        sel_qubit_def getitem_fitter_def sweep_span_of_def coord_span_def getitem_coord_def
        getattr_var_def py_int_def py_float_def getitem_def)
  have i: "qubit_index fit_two ''q1'' = Some slice_q1" by (simp add: fit_two_def)
  have r: "slice_q1 ''opx_bandwidth_artifact'' = Some (PyBool True)" by (simp add: slice_q1_def)
  from artifact_flag_inverted [OF m i r] m i r show ?thesis by simp
qed

text \<open>
  C10. Any two qubits that the extractor returns metrics for, from the same fit dataset
  and fitters, get the same \<open>sweep_span\<close>, and it is not negative.
\<close>

theorem sweep_span_shared:
  assumes "extract_qubit_fit_metrics fit fitters q1 = Inr m1"
    and "extract_qubit_fit_metrics fit fitters q2 = Inr m2"
  shows "\<exists>s. m1 ''sweep_span'' = Some (PyFloat s) \<and> m2 ''sweep_span'' = Some (PyFloat s)
             \<and> 0 \<le> s"
proof -
  from extract_InrD [OF assms(1)] obtain s where
    s: "sweep_span_of fit = Inr s"
    and 1: "m1 ''sweep_span'' = Some (PyFloat s)"
    by auto
  from extract_InrD [OF assms(2)] s have 2: "m2 ''sweep_span'' = Some (PyFloat s)"
    by auto
  from s have "0 \<le> s"
    by (auto simp: sweep_span_of_def split: if_splits dest: coord_span_nonneg)
  with 1 2 show ?thesis by blast
qed

text \<open>C10 at the two-qubit dataset: both qubits get the span 4 MHz of the detuning
  axis.\<close>

theorem sweep_span_shared_witness:
  "(\<exists>m1 m2. extract_qubit_fit_metrics fit_two fitters_two ''q1'' = Inr m1
      \<and> extract_qubit_fit_metrics fit_two fitters_two ''q2'' = Inr m2
      \<and> m1 ''sweep_span'' = Some (PyFloat 4000000)
      \<and> m2 ''sweep_span'' = Some (PyFloat 4000000))"
proof -
  obtain m1 where 1: "extract_qubit_fit_metrics fit_two fitters_two ''q1'' = Inr m1"
    and s1: "m1 ''sweep_span'' = Some (PyFloat 4000000)"
    by (simp add: extract_qubit_fit_metrics_def fit_two_def fitters_two_def slice_q1_def
        sel_qubit_def getitem_fitter_def sweep_span_of_def coord_span_def getitem_coord_def
        getattr_var_def py_int_def py_float_def getitem_def)
  obtain m2 where 2: "extract_qubit_fit_metrics fit_two fitters_two ''q2'' = Inr m2"
    by (simp add: extract_qubit_fit_metrics_def fit_two_def fitters_two_def slice_q2_def
        sel_qubit_def getitem_fitter_def sweep_span_of_def coord_span_def getitem_coord_def
        getattr_var_def py_int_def py_float_def getitem_def)
  from sweep_span_shared [OF 1 2] s1 1 2 show ?thesis by auto
qed


lemma bnd_eq_Inl: "bnd r f = Inl e \<longleftrightarrow> r = Inl e \<or> (\<exists>v. r = Inr v \<and> f v = Inl e)"
  by (cases r) (simp_all add: bnd_def)

lemma sel_qubit_builtin: "sel_qubit fit q = Inl e \<Longrightarrow> builtin_error e"
  by (auto simp: sel_qubit_def builtin_error_def split: option.splits)

lemma getitem_fitter_builtin: "getitem_fitter fs q = Inl e \<Longrightarrow> builtin_error e"
  by (auto simp: getitem_fitter_def builtin_error_def split: option.splits)

lemma getattr_var_builtin: "getattr_var d k = Inl e \<Longrightarrow> builtin_error e"
  by (auto simp: getattr_var_def builtin_error_def split: option.splits)

lemma getitem_builtin: "getitem d k = Inl e \<Longrightarrow> builtin_error e"
  by (auto simp: getitem_def builtin_error_def split: option.splits)

lemma py_int_builtin: "py_int v = Inl e \<Longrightarrow> builtin_error e"
  by (auto simp: py_int_def builtin_error_def split: py_value.splits)

lemma py_float_builtin: "py_float v = Inl e \<Longrightarrow> builtin_error e"
  by (auto simp: py_float_def builtin_error_def split: option.splits)

lemma array_max_builtin: "array_max xs = Inl e \<Longrightarrow> builtin_error e"
  by (cases xs) (auto simp: builtin_error_def)

lemma array_min_builtin: "array_min xs = Inl e \<Longrightarrow> builtin_error e"
  by (cases xs) (auto simp: builtin_error_def)

lemma getitem_coord_builtin: "getitem_coord fit k = Inl e \<Longrightarrow> builtin_error e"
  by (auto simp: getitem_coord_def builtin_error_def split: option.splits)

lemma coord_span_builtin: "coord_span fit k = Inl e \<Longrightarrow> builtin_error e"
  unfolding coord_span_def
  by (auto simp: bnd_eq_Inl dest: getitem_coord_builtin array_max_builtin array_min_builtin)

lemma sweep_span_of_builtin: "sweep_span_of fit = Inl e \<Longrightarrow> builtin_error e"
  by (auto simp: sweep_span_of_def dest: coord_span_builtin split: if_splits)

lemma extract_builtin:
  assumes "extract_qubit_fit_metrics fit fitters q = Inl e"
  shows "builtin_error e"
  using assms unfolding extract_qubit_fit_metrics_def
  by (auto simp: bnd_eq_Inl dest: sel_qubit_builtin getitem_fitter_builtin getattr_var_builtin getitem_builtin
        py_int_builtin py_float_builtin sweep_span_of_builtin)


lemma bnd_getattr_present: "bnd (getattr_var d k) f = Inr y \<Longrightarrow> d k \<noteq> None"
  by (auto simp: bnd_eq_Inr getattr_var_Inr)

lemma missing_field_no_metrics:
  assumes "qubit_index fit q = Some qd" and "fitters q = Some ft"
    and "(f \<in> set dataset_fields \<and> qd f = None)
         \<or> (f \<in> set fitter_fields \<and> quality_metrics ft f = None)"
  shows "extract_qubit_fit_metrics fit fitters q \<noteq> Inr m"
proof
  assume "extract_qubit_fit_metrics fit fitters q = Inr m"
  from extract_InrD [OF this] assms(1,2)
  have "qd ''num_peaks'' \<noteq> None" "qd ''snr'' \<noteq> None" "qd ''fwhm'' \<noteq> None"
    "qd ''asymmetry'' \<noteq> None" "qd ''skewness'' \<noteq> None"
    "qd ''opx_bandwidth_artifact'' \<noteq> None"
    "quality_metrics ft ''nrmse'' \<noteq> None" "quality_metrics ft ''r_squared'' \<noteq> None"
    by (auto dest: bnd_getattr_present)
  with assms(3) show False
    by (auto simp: dataset_fields_def fitter_fields_def)
qed

lemma sweep_span_of_qubit_index [simp]:
  "sweep_span_of (fit\<lparr>qubit_index := x\<rparr>) = sweep_span_of fit"
  by (simp add: sweep_span_of_def coord_span_def getitem_coord_def)

lemma getattr_var_other: "k \<noteq> f \<Longrightarrow> getattr_var (d(f \<mapsto> v)) k = getattr_var d k"
  by (simp add: getattr_var_def)

lemma getitem_other: "k \<noteq> f \<Longrightarrow> getitem (d(f \<mapsto> v)) k = getitem d k"
  by (simp add: getitem_def)

lemma getattr_var_None: "d k = None \<Longrightarrow> getattr_var d k = Inl (AttributeError k)"
  by (simp add: getattr_var_def)

lemma getitem_None: "d k = None \<Longrightarrow> getitem d k = Inl (KeyError k)"
  by (simp add: getitem_def)

lemma only_dataset_field_missing:
  assumes "qubit_index fit q = Some qd" and "f \<in> set dataset_fields" and "qd f = None"
    and "extract_qubit_fit_metrics
           (fit\<lparr>qubit_index := (qubit_index fit)(q \<mapsto> qd(f \<mapsto> v))\<rparr>) fitters q = Inr m'"
  shows "extract_qubit_fit_metrics fit fitters q = Inl (AttributeError f)"
proof -
  let ?fit = "fit\<lparr>qubit_index := (qubit_index fit)(q \<mapsto> qd(f \<mapsto> v))\<rparr>"
  obtain qd' ft span np sn fw asy skw raw where raw:
    "qubit_index ?fit q = Some qd'"
    "fitters q = Some ft"
    "sweep_span_of ?fit = Inr span"
    "bnd (getattr_var qd' ''num_peaks'') py_int = Inr np"
    "bnd (getattr_var qd' ''snr'') py_float = Inr sn"
    "bnd (getattr_var qd' ''fwhm'') py_float = Inr fw"
    "bnd (getattr_var qd' ''asymmetry'') py_float = Inr asy"
    "bnd (getattr_var qd' ''skewness'') py_float = Inr skw"
    "qd' ''opx_bandwidth_artifact'' = Some raw"
    using extract_InrD [OF assms(4)] by (elim exE conjE) (rule that; assumption)
  from raw(1) have qd': "qd' = qd(f \<mapsto> v)" by (simp add: fun_upd_same)
  from raw(3) have span: "sweep_span_of fit = Inr span" by simp
  have start: "sel_qubit fit q = Inr qd" "getitem_fitter fitters q = Inr ft"
    using assms(1) raw(2) by (simp_all add: sel_qubit_def getitem_fitter_def)
  note ok = raw(4-8) [unfolded qd']
  from assms(2) have "f = ''num_peaks'' \<or> f = ''snr'' \<or> f = ''fwhm''
    \<or> f = ''asymmetry'' \<or> f = ''skewness'' \<or> f = ''opx_bandwidth_artifact''"
    by (simp add: dataset_fields_def)
  then show ?thesis
  proof (elim disjE)
    assume f: "f = ''num_peaks''"
    from assms(3) have "getattr_var qd ''num_peaks'' = Inl (AttributeError ''num_peaks'')"
      unfolding f by (rule getattr_var_None)
    then show ?thesis
      unfolding f extract_qubit_fit_metrics_def by (simp add: start span)
  next
    assume f: "f = ''snr''"
    from assms(3) have "getattr_var qd ''snr'' = Inl (AttributeError ''snr'')"
      unfolding f by (rule getattr_var_None)
    moreover from ok(1) have "bnd (getattr_var qd ''num_peaks'') py_int = Inr np"
      unfolding f by (simp add: getattr_var_other)
    ultimately show ?thesis
      unfolding f extract_qubit_fit_metrics_def by (simp add: start span)
  next
    assume f: "f = ''fwhm''"
    from assms(3) have "getattr_var qd ''fwhm'' = Inl (AttributeError ''fwhm'')"
      unfolding f by (rule getattr_var_None)
    moreover from ok(1) have "bnd (getattr_var qd ''num_peaks'') py_int = Inr np"
      unfolding f by (simp add: getattr_var_other)
    moreover from ok(2) have "bnd (getattr_var qd ''snr'') py_float = Inr sn"
      unfolding f by (simp add: getattr_var_other)
    ultimately show ?thesis
      unfolding f extract_qubit_fit_metrics_def by (simp add: start span)
  next
    assume f: "f = ''asymmetry''"
    from assms(3) have "getattr_var qd ''asymmetry'' = Inl (AttributeError ''asymmetry'')"
      unfolding f by (rule getattr_var_None)
    moreover from ok(1) have "bnd (getattr_var qd ''num_peaks'') py_int = Inr np"
      unfolding f by (simp add: getattr_var_other)
    moreover from ok(2) have "bnd (getattr_var qd ''snr'') py_float = Inr sn"
      unfolding f by (simp add: getattr_var_other)
    moreover from ok(3) have "bnd (getattr_var qd ''fwhm'') py_float = Inr fw"
      unfolding f by (simp add: getattr_var_other)
    ultimately show ?thesis
      unfolding f extract_qubit_fit_metrics_def by (simp add: start span)
  next
    assume f: "f = ''skewness''"
    from assms(3) have "getattr_var qd ''skewness'' = Inl (AttributeError ''skewness'')"
      unfolding f by (rule getattr_var_None)
    moreover from ok(1) have "bnd (getattr_var qd ''num_peaks'') py_int = Inr np"
      unfolding f by (simp add: getattr_var_other)
    moreover from ok(2) have "bnd (getattr_var qd ''snr'') py_float = Inr sn"
      unfolding f by (simp add: getattr_var_other)
    moreover from ok(3) have "bnd (getattr_var qd ''fwhm'') py_float = Inr fw"
      unfolding f by (simp add: getattr_var_other)
    moreover from ok(4) have "bnd (getattr_var qd ''asymmetry'') py_float = Inr asy"
      unfolding f by (simp add: getattr_var_other)
    ultimately show ?thesis
      unfolding f extract_qubit_fit_metrics_def by (simp add: start span)
  next
    assume f: "f = ''opx_bandwidth_artifact''"
    from assms(3)
    have "getattr_var qd ''opx_bandwidth_artifact'' = Inl (AttributeError ''opx_bandwidth_artifact'')"
      unfolding f by (rule getattr_var_None)
    moreover from ok(1) have "bnd (getattr_var qd ''num_peaks'') py_int = Inr np"
      unfolding f by (simp add: getattr_var_other)
    moreover from ok(2) have "bnd (getattr_var qd ''snr'') py_float = Inr sn"
      unfolding f by (simp add: getattr_var_other)
    moreover from ok(3) have "bnd (getattr_var qd ''fwhm'') py_float = Inr fw"
      unfolding f by (simp add: getattr_var_other)
    moreover from ok(4) have "bnd (getattr_var qd ''asymmetry'') py_float = Inr asy"
      unfolding f by (simp add: getattr_var_other)
    moreover from ok(5) have "bnd (getattr_var qd ''skewness'') py_float = Inr skw"
      unfolding f by (simp add: getattr_var_other)
    ultimately show ?thesis
      unfolding f extract_qubit_fit_metrics_def by (simp add: start span)
  qed
qed


lemma only_fitter_field_missing:
  assumes "fitters q = Some ft" and "f \<in> set fitter_fields" and "quality_metrics ft f = None"
    and "extract_qubit_fit_metrics fit
           (fitters(q \<mapsto> ft\<lparr>quality_metrics := (quality_metrics ft)(f \<mapsto> v)\<rparr>)) q = Inr m'"
  shows "extract_qubit_fit_metrics fit fitters q = Inl (KeyError f)"
proof -
  let ?fitters = "fitters(q \<mapsto> ft\<lparr>quality_metrics := (quality_metrics ft)(f \<mapsto> v)\<rparr>)"
  obtain qd ft' span np sn fw asy skw raw nr where raw:
    "qubit_index fit q = Some qd"
    "?fitters q = Some ft'"
    "sweep_span_of fit = Inr span"
    "bnd (getattr_var qd ''num_peaks'') py_int = Inr np"
    "bnd (getattr_var qd ''snr'') py_float = Inr sn"
    "bnd (getattr_var qd ''fwhm'') py_float = Inr fw"
    "bnd (getattr_var qd ''asymmetry'') py_float = Inr asy"
    "bnd (getattr_var qd ''skewness'') py_float = Inr skw"
    "qd ''opx_bandwidth_artifact'' = Some raw"
    "quality_metrics ft' ''nrmse'' = Some nr"
    using extract_InrD [OF assms(4)] by (elim exE conjE) (rule that; assumption)
  from raw(2) have ft': "ft' = ft\<lparr>quality_metrics := (quality_metrics ft)(f \<mapsto> v)\<rparr>"
    by (simp add: fun_upd_same)
  have start: "sel_qubit fit q = Inr qd" "getitem_fitter fitters q = Inr ft"
    "getattr_var qd ''opx_bandwidth_artifact'' = Inr raw"
    using assms(1) raw(1,9) by (simp_all add: sel_qubit_def getitem_fitter_def getattr_var_def)
  from assms(2) have "f = ''nrmse'' \<or> f = ''r_squared''"
    by (simp add: fitter_fields_def)
  then show ?thesis
  proof (elim disjE)
    assume f: "f = ''nrmse''"
    from assms(3) have "getitem (quality_metrics ft) ''nrmse'' = Inl (KeyError ''nrmse'')"
      unfolding f by (rule getitem_None)
    then show ?thesis
      unfolding f extract_qubit_fit_metrics_def by (simp add: start raw(3-8))
  next
    assume f: "f = ''r_squared''"
    from assms(3) have "getitem (quality_metrics ft) ''r_squared'' = Inl (KeyError ''r_squared'')"
      unfolding f by (rule getitem_None)
    moreover from raw(10) have "getitem (quality_metrics ft) ''nrmse'' = Inr nr"
      unfolding ft' f by (simp add: getitem_def)
    ultimately show ?thesis
      unfolding f extract_qubit_fit_metrics_def by (simp add: start raw(3-8))
  qed
qed

text \<open>
  C7, as amended. When one of the eight required fields is absent from the qubit's slice
  of the fit dataset or from the fitter's quality-metrics map, the extractor raises and
  returns no metrics dictionary, so no metric is defaulted. The exception is one of
  \<open>KeyError\<close>, \<open>AttributeError\<close>, \<open>TypeError\<close> and \<open>ValueError\<close>. When the absent
  field is the only fault (supplying a value for it makes the extraction succeed), the
  exception is \<open>AttributeError\<close> naming the field for a dataset field and \<open>KeyError\<close>
  naming the field for a quality metric; it carries no qubit name.
\<close>

theorem missing_field_raises:
  assumes "qubit_index fit q = Some qd" and "fitters q = Some ft"
    and "(f \<in> set dataset_fields \<and> qd f = None)
         \<or> (f \<in> set fitter_fields \<and> quality_metrics ft f = None)"
  shows "(\<exists>e. extract_qubit_fit_metrics fit fitters q = Inl e \<and> builtin_error e)
         \<and> (f \<in> set dataset_fields \<and> qd f = None
              \<and> (\<exists>m'. extract_qubit_fit_metrics
                         (fit\<lparr>qubit_index := (qubit_index fit)(q \<mapsto> qd(f \<mapsto> v))\<rparr>) fitters q
                       = Inr m')
             \<longrightarrow> extract_qubit_fit_metrics fit fitters q = Inl (AttributeError f))
         \<and> (f \<in> set fitter_fields \<and> quality_metrics ft f = None
              \<and> (\<exists>m'. extract_qubit_fit_metrics fit
                         (fitters(q \<mapsto> ft\<lparr>quality_metrics := (quality_metrics ft)(f \<mapsto> v)\<rparr>)) q
                       = Inr m')
             \<longrightarrow> extract_qubit_fit_metrics fit fitters q = Inl (KeyError f))"
proof -
  have "\<exists>e. extract_qubit_fit_metrics fit fitters q = Inl e \<and> builtin_error e"
  proof (cases "extract_qubit_fit_metrics fit fitters q")
    case (Inl e)
    then show ?thesis by (auto dest: extract_builtin)
  next
    case (Inr m)
    with assms missing_field_no_metrics [of fit q qd fitters ft f m] show ?thesis by simp
  qed
  moreover have "f \<in> set dataset_fields \<and> qd f = None
              \<and> (\<exists>m'. extract_qubit_fit_metrics
                         (fit\<lparr>qubit_index := (qubit_index fit)(q \<mapsto> qd(f \<mapsto> v))\<rparr>) fitters q
                       = Inr m')
             \<longrightarrow> extract_qubit_fit_metrics fit fitters q = Inl (AttributeError f)"
  proof (intro impI, elim conjE exE)
    fix m'
    assume "f \<in> set dataset_fields" and "qd f = None"
      and "extract_qubit_fit_metrics
             (fit\<lparr>qubit_index := (qubit_index fit)(q \<mapsto> qd(f \<mapsto> v))\<rparr>) fitters q = Inr m'"
    with assms(1) show "extract_qubit_fit_metrics fit fitters q = Inl (AttributeError f)"
      by (rule only_dataset_field_missing)
  qed
  moreover have "f \<in> set fitter_fields \<and> quality_metrics ft f = None
              \<and> (\<exists>m'. extract_qubit_fit_metrics fit
                         (fitters(q \<mapsto> ft\<lparr>quality_metrics := (quality_metrics ft)(f \<mapsto> v)\<rparr>)) q
                       = Inr m')
             \<longrightarrow> extract_qubit_fit_metrics fit fitters q = Inl (KeyError f)"
  proof (intro impI, elim conjE exE)
    fix m'
    assume "f \<in> set fitter_fields" and "quality_metrics ft f = None"
      and "extract_qubit_fit_metrics fit
             (fitters(q \<mapsto> ft\<lparr>quality_metrics := (quality_metrics ft)(f \<mapsto> v)\<rparr>)) q = Inr m'"
    with assms(2) show "extract_qubit_fit_metrics fit fitters q = Inl (KeyError f)"
      by (rule only_fitter_field_missing)
  qed
  ultimately show ?thesis by (intro conjI)
qed

lemmas extractor_steps =
  extract_qubit_fit_metrics_def sel_qubit_def getitem_fitter_def sweep_span_of_def coord_span_def
  getitem_coord_def getattr_var_def py_int_def py_float_def getitem_def

text \<open>
  C7 as stated has the extractor fail with a \<open>MissingFieldError\<close> naming field and
  qubit. With \<open>snr\<close> absent from the slice of \<open>q1\<close> it raises \<open>AttributeError\<close>
  carrying \<open>snr\<close> only.
\<close>

theorem missing_snr_is_attribute_error:
  "extract_qubit_fit_metrics fit_no_snr fitters_two ''q1'' = Inl (PyError ''AttributeError'' [''snr''])
   \<and> extract_qubit_fit_metrics fit_no_snr fitters_two ''q1''
       \<noteq> Inl (PyError ''MissingFieldError'' [''snr'', ''q1''])"
  by (simp add: extractor_steps fit_no_snr_def fit_two_def fitters_two_def slice_q1_def)

text \<open>C7 as amended, at the dataset without \<open>snr\<close> for \<open>q1\<close>.\<close>

theorem missing_field_raises_witness:
  "qubit_index fit_no_snr ''q1'' = Some (slice_q1(''snr'' := None))
   \<and> fitters_two ''q1''
       = Some \<lparr>quality_metrics = [''nrmse'' \<mapsto> PyFloat 0.05, ''r_squared'' \<mapsto> PyFloat 0.95]\<rparr>
   \<and> ''snr'' \<in> set dataset_fields \<and> (slice_q1(''snr'' := None)) ''snr'' = None
   \<and> (\<exists>m'. extract_qubit_fit_metrics
              (fit_no_snr\<lparr>qubit_index :=
                 (qubit_index fit_no_snr)(''q1'' \<mapsto> (slice_q1(''snr'' := None))(''snr'' \<mapsto> PyFloat 10))\<rparr>)
              fitters_two ''q1'' = Inr m')
   \<and> extract_qubit_fit_metrics fit_no_snr fitters_two ''q1'' = Inl (AttributeError ''snr'')
   \<and> builtin_error (AttributeError ''snr'')"
proof -
  have i: "qubit_index fit_no_snr ''q1'' = Some (slice_q1(''snr'' := None))"
    by (simp add: fit_no_snr_def)
  have t: "fitters_two ''q1''
       = Some \<lparr>quality_metrics = [''nrmse'' \<mapsto> PyFloat 0.05, ''r_squared'' \<mapsto> PyFloat 0.95]\<rparr>"
    by (simp add: fitters_two_def)
  have a: "''snr'' \<in> set dataset_fields \<and> (slice_q1(''snr'' := None)) ''snr'' = None"
    by (simp add: dataset_fields_def)
  have s: "\<exists>m'. extract_qubit_fit_metrics
              (fit_no_snr\<lparr>qubit_index :=
                 (qubit_index fit_no_snr)(''q1'' \<mapsto> (slice_q1(''snr'' := None))(''snr'' \<mapsto> PyFloat 10))\<rparr>)
              fitters_two ''q1'' = Inr m'"
    by (simp add: extractor_steps fit_no_snr_def fit_two_def fitters_two_def slice_q1_def)
  from missing_field_raises [where fit = fit_no_snr and q = "''q1''"
      and qd = "slice_q1(''snr'' := None)" and fitters = fitters_two
      and ft = "\<lparr>quality_metrics = [''nrmse'' \<mapsto> PyFloat 0.05, ''r_squared'' \<mapsto> PyFloat 0.95]\<rparr>"
      and f = "''snr''" and v = "PyFloat 10"] i t a s
  have "extract_qubit_fit_metrics fit_no_snr fitters_two ''q1'' = Inl (AttributeError ''snr'')
        \<and> (\<exists>e. extract_qubit_fit_metrics fit_no_snr fitters_two ''q1'' = Inl e \<and> builtin_error e)"
    by blast
  then have "extract_qubit_fit_metrics fit_no_snr fitters_two ''q1'' = Inl (AttributeError ''snr'')
        \<and> builtin_error (AttributeError ''snr'')"
    by auto
  with i t a s show ?thesis by blast
qed

subsection \<open>The result logger\<close>

lemma log_message_report_line:
  "log_message qubit_name res =
     report_line ''  '' (\<lambda>x. fmul x float_1e_minus_9) (\<lambda>x. fmul x float_1e_minus_3)
       qubit_name (fields_of res)"
  by (cases res) (simp_all add: log_message_def report_line_def fields_of_def Let_def)

text \<open>
  C9, as amended. For every result map the logger passes exactly one text per qubit to
  the sink, in the map's insertion order, and that text is
  \<open>Results for qubit <id>:\<close>, two spaces, \<open>SUCCESS!\<close> or \<open>FAIL! Reason: <outcome>\<close>,
  a newline and a tab, then \<open>Resonator frequency: <freq*1e-9 to 3 decimals> GHz | \<close> and
  \<open>FWHM: <fwhm*1e-3 to 1 decimal> kHz | \<close>, the numbers being the float products. A
  dictionary is accepted in place of the object; a missing outcome reads \<open>unknown\<close> and
  a missing number \<open>0.0\<close>.
\<close>

theorem log_fitted_results_lines:
  "log_fitted_results fit_results emitted =
     emitted @
     map (\<lambda>(qubit_name, res).
            report_line ''  '' (\<lambda>x. fmul x float_1e_minus_9) (\<lambda>x. fmul x float_1e_minus_3)
              qubit_name (fields_of res))
       fit_results
   \<and> fields_of (Dict \<lparr>get_outcome = None, get_frequency = None, get_fwhm = None\<rparr>)
       = \<lparr>frequency = float_zero, fwhm = float_zero, outcome = ''unknown''\<rparr>"
proof -
  have "log_fitted_results fit_results emitted =
     emitted @
     map (\<lambda>(qubit_name, res).
            report_line ''  '' (\<lambda>x. fmul x float_1e_minus_9) (\<lambda>x. fmul x float_1e_minus_3)
              qubit_name (fields_of res))
       fit_results"
  proof (induction fit_results arbitrary: emitted)
    case Nil
    show ?case by simp
  next
    case (Cons entry rest)
    obtain qubit_name res where e: "entry = (qubit_name, res)" by (cases entry)
    show ?case unfolding e by (simp add: Cons.IH log_message_report_line)
  qed
  then show ?thesis by (simp add: fields_of_def)
qed

lemma replicate_small:
  "replicate 2 c = [c, c]" "replicate 3 c = [c, c, c]"
  by (simp_all add: numeral_2_eq_2 numeral_3_eq_3)

lemmas double_eval =
  replicate_small float_1e_minus_9_def float_1e_minus_3_def float_zero_def round_ratio_def
  floor_log2_def round_half_even_div_def digit_char_def Let_def

lemma ghz_7100000000: "format_f 3 (fmul (Finite False 7100000000 0) float_1e_minus_9) = ''7.100''"
  by (simp add: double_eval)

lemma khz_250000:
  "format_f (Suc 0) (fmul (Finite False 250000 0) float_1e_minus_3) = ''250.0''"
  by (simp add: double_eval)

lemma ghz_5000500000:
  "format_f 3 (fmul (Finite False 5000500000 0) float_1e_minus_9) = ''5.001''"
  by (simp add: double_eval)

lemma khz_350:
  "format_f (Suc 0) (fmul (Finite False 350 0) float_1e_minus_3) = ''0.4''"
  by (simp add: double_eval)

text \<open>
  C9 as stated puts a single space between the colon and the token, and prints the
  quotients \<open>freq/1e9\<close> and \<open>fwhm/1e3\<close>. The source appends \<open>" SUCCESS!"\<close> to a status
  line that already ends in \<open>": "\<close>, so the text logged for a successful qubit has two
  spaces; and it prints the products \<open>frequency * 1e-9\<close> and \<open>fwhm * 1e-3\<close>, which for
  a frequency of 5.0005 GHz and a width of 350 Hz are the floats just above the quotients
  and print as \<open>5.001\<close> and \<open>0.4\<close> where the quotients print as \<open>5.000\<close> and \<open>0.3\<close>.
\<close>

theorem log_line_spaces_and_products:
  "log_fitted_results
     [(''q1'', Object \<lparr>frequency = Finite False 7100000000 0, fwhm = Finite False 250000 0,
         outcome = ''successful''\<rparr>)] []
   = [''Results for qubit q1:  SUCCESS!'' @ [CHR 0x0A, CHR 0x09] @
      ''Resonator frequency: 7.100 GHz | FWHM: 250.0 kHz | '']
   \<and> log_fitted_results
       [(''q1'', Object \<lparr>frequency = Finite False 7100000000 0, fwhm = Finite False 250000 0,
           outcome = ''successful''\<rparr>)] []
     \<noteq> [spec_line ''q1''
          \<lparr>frequency = Finite False 7100000000 0, fwhm = Finite False 250000 0,
            outcome = ''successful''\<rparr>]
   \<and> log_fitted_results
       [(''q1'', Object \<lparr>frequency = Finite False 5000500000 0, fwhm = Finite False 350 0,
           outcome = ''successful''\<rparr>)] []
     = [''Results for qubit q1:  SUCCESS!'' @ [CHR 0x0A, CHR 0x09] @
        ''Resonator frequency: 5.001 GHz | FWHM: 0.4 kHz | '']
   \<and> spec_line ''q1''
       \<lparr>frequency = Finite False 5000500000 0, fwhm = Finite False 350 0,
         outcome = ''successful''\<rparr>
     = ''Results for qubit q1: SUCCESS!'' @ [CHR 0x0A, CHR 0x09] @
       ''Resonator frequency: 5.000 GHz | FWHM: 0.3 kHz | ''"
proof -
  have a: "log_message ''q1''
      (Object \<lparr>frequency = Finite False 7100000000 0, fwhm = Finite False 250000 0,
         outcome = ''successful''\<rparr>)
    = ''Results for qubit q1:  SUCCESS!'' @ [CHR 0x0A, CHR 0x09] @
      ''Resonator frequency: 7.100 GHz | FWHM: 250.0 kHz | ''"
    by (simp add: log_message_def Let_def ghz_7100000000 khz_250000)
  have b: "log_message ''q1''
      (Object \<lparr>frequency = Finite False 5000500000 0, fwhm = Finite False 350 0,
         outcome = ''successful''\<rparr>)
    = ''Results for qubit q1:  SUCCESS!'' @ [CHR 0x0A, CHR 0x09] @
      ''Resonator frequency: 5.001 GHz | FWHM: 0.4 kHz | ''"
    by (simp add: log_message_def Let_def ghz_5000500000 khz_350)
  have c: "spec_line ''q1''
       \<lparr>frequency = Finite False 5000500000 0, fwhm = Finite False 350 0,
         outcome = ''successful''\<rparr>
     = ''Results for qubit q1: SUCCESS!'' @ [CHR 0x0A, CHR 0x09] @
       ''Resonator frequency: 5.000 GHz | FWHM: 0.3 kHz | ''"
    by (simp add: spec_line_def report_line_def double_eval)
  have d: "spec_line ''q1''
          \<lparr>frequency = Finite False 7100000000 0, fwhm = Finite False 250000 0,
            outcome = ''successful''\<rparr>
     \<noteq> ''Results for qubit q1:  SUCCESS!'' @ [CHR 0x0A, CHR 0x09] @
      ''Resonator frequency: 7.100 GHz | FWHM: 250.0 kHz | ''"
    by (simp add: spec_line_def report_line_def)
  from d show ?thesis by (simp add: a b c)
qed

end
